theory Spec2Isabelle
  imports Main "HOL-Library.Word" "HOL-Library.Sublist"
begin

unbundle bit_operations_syntax

section \<open>Data model (aie\_profile\_ct\_writer.h)\<close>

text \<open>
  The structs of the header become records. The C++ types \<open>uint8_t\<close>, \<open>uint32_t\<close>
  and \<open>uint64_t\<close> are words of that width. The C++ \<open>int\<close> fields are 32 bits
  wide; they are modelled as \<open>int\<close> values within that range, and the loader, which
  computes them, writes the wrap-around out (\<open>int32_wrap\<close> below).
\<close>

record SaveTimestampInfo =
  lineNumber :: "32 word"
  optionalIndex :: int

record CTCounterInfo =
  column :: "8 word"
  row :: "8 word"
  counterNumber :: "8 word"
  module :: string
  address :: "64 word"
  metricSet :: string
  portDirection :: string

record ASMFileInfo =
  filename :: string
  asmId :: int
  ucNumber :: int
  colStart :: int
  colEnd :: int
  timestamps :: "SaveTimestampInfo list"
  counters :: "CTCounterInfo list"

text \<open>
  Modelled from the spec: the declaration of \<open>AIECounter\<close> (aie\_constructs.h) is
  not among the sources; the counter record exposes column, row, counter index (all
  \<open>uint8\<close>), a module string and a payload value, which \<open>getPortDirection\<close>
  receives as \<open>uint64_t\<close>.
\<close>

record AIECounter =
  aie_column :: "8 word"
  aie_row :: "8 word"
  aie_counterNumber :: "8 word"
  aie_module :: string
  aie_payload :: "64 word"

datatype severity_level = debug | info | warning

type_synonym log = "(severity_level \<times> string) list"

text \<open>
  The writer object. \<open>columnShift\<close> and \<open>rowShift\<close> are its members, set by the
  constructor from the configuration metadata.
\<close>

text \<open>
  Modelled from the spec: the classes \<open>VPDatabase\<close> and \<open>AieProfileMetadata\<close>
  and the type \<open>tile_type\<close> are not among the sources; what the writer reads from
  them is held in fields of the writer.
  \<open>aieCounters\<close> is what \<open>getAIECounter(deviceId, i)\<close> returns for
  \<open>i < getNumAIECounter(deviceId)\<close> (\<open>None\<close> for a null pointer),
  \<open>profileConfig\<close> is the \<open>configMetrics\<close> of \<open>createAIEProfileConfig()\<close>
  (\<open>None\<close> for a null pointer; one entry list per module, each in the iteration
  order of its map, keyed by the tile's column and row), and \<open>csvPath\<close> and
  \<open>outputPath\<close> are the two paths under \<open>fs::current_path()\<close>, which only occur
  in log messages.
\<close>

type_synonym tile_metrics = "((nat \<times> nat) \<times> string) list"

record AieProfileCTWriter =
  columnShift :: "8 word"
  rowShift :: "8 word"
  aieCounters :: "AIECounter option list"
  profileConfig :: "tile_metrics list option"
  csvPath :: string
  outputPath :: string

section \<open>Register addresses\<close>

definition CORE_MODULE_BASE_OFFSET :: "64 word" where
  "CORE_MODULE_BASE_OFFSET = 0x00037520"

definition MEMORY_MODULE_BASE_OFFSET :: "64 word" where
  "MEMORY_MODULE_BASE_OFFSET = 0x00011020"

definition MEM_TILE_BASE_OFFSET :: "64 word" where
  "MEM_TILE_BASE_OFFSET = 0x00091020"

definition SHIM_TILE_BASE_OFFSET :: "64 word" where
  "SHIM_TILE_BASE_OFFSET = 0x00031020"

definition getModuleBaseOffset :: "string \<Rightarrow> 64 word" where
  "getModuleBaseOffset m =
     (if m = ''aie'' then CORE_MODULE_BASE_OFFSET
      else if m = ''aie_memory'' then MEMORY_MODULE_BASE_OFFSET
      else if m = ''memory_tile'' then MEM_TILE_BASE_OFFSET
      else if m = ''interface_tile'' then SHIM_TILE_BASE_OFFSET
      else CORE_MODULE_BASE_OFFSET)"

text \<open>
  \<open>calculateCounterAddress\<close> reads the members \<open>columnShift\<close> and \<open>rowShift\<close>
  (both \<open>uint8_t\<close>) of the writer. The operands of \<open><<\<close>
  are cast to \<open>uint64_t\<close> first; a shift by 64 or more is undefined behaviour in
  C++, and \<open>push_bit\<close> then gives 0. \<open>counterNumber * 4\<close> is computed in
  \<open>int\<close> after integral promotion (at most 1020) and then converted.
\<close>

definition calculateCounterAddress ::
  "AieProfileCTWriter \<Rightarrow> 8 word \<Rightarrow> 8 word \<Rightarrow> 8 word \<Rightarrow> string \<Rightarrow> 64 word" where
  "calculateCounterAddress this col rw cnt m =
     (let tileAddress = push_bit (unat (columnShift this)) (ucast col :: 64 word)
                        OR push_bit (unat (rowShift this)) (ucast rw :: 64 word);
          baseOffset = getModuleBaseOffset m;
          counterOffset = (word_of_int (uint cnt * 4) :: 64 word)
      in tileAddress + baseOffset + counterOffset)"

section \<open>Column-range filter\<close>

text \<open>
  The loop of \<open>filterCountersByColumn\<close>, with the vector \<open>filtered\<close> as accumulator.
  The comparison promotes the \<open>uint8_t\<close> column to \<open>int\<close>.
\<close>

fun filterCountersByColumn_loop ::
  "CTCounterInfo list \<Rightarrow> int \<Rightarrow> int \<Rightarrow> CTCounterInfo list \<Rightarrow> CTCounterInfo list" where
  "filterCountersByColumn_loop [] cs ce filtered = filtered"
| "filterCountersByColumn_loop (counter # rest) cs ce filtered =
     filterCountersByColumn_loop rest cs ce
       (if uint (column counter) \<ge> cs \<and> uint (column counter) \<le> ce
        then filtered @ [counter] else filtered)"

definition filterCountersByColumn ::
  "CTCounterInfo list \<Rightarrow> int \<Rightarrow> int \<Rightarrow> CTCounterInfo list" where
  "filterCountersByColumn allCounters cs ce = filterCountersByColumn_loop allCounters cs ce []"

section \<open>MetricsCollectionManager (metrics\_collection\_manager.cpp)\<close>

text \<open>
  The member \<open>allModulesMetricCollections\<close> is a two-level map, from the module to
  the setting name to the collection. The types \<open>module_type\<close> and
  \<open>MetricCollection\<close> are declared in a header that is not among the sources; they are
  the type parameters \<open>'m\<close> and \<open>'c\<close>, and the default-constructed
  \<open>emptyCollection\<close> is an argument. \<open>getMetricCollection\<close> is a \<open>const\<close> member
  that uses \<open>find\<close>, never \<open>operator[]\<close>; it returns the manager it was given
  beside the collection, so that the effect on the state can be stated.
\<close>

type_synonym ('m, 'c) MetricsCollectionManager = "'m \<rightharpoonup> (string \<rightharpoonup> 'c)"

definition addMetricCollection ::
  "'m \<Rightarrow> string \<Rightarrow> 'c \<Rightarrow> ('m, 'c) MetricsCollectionManager \<Rightarrow> ('m, 'c) MetricsCollectionManager" where
  "addMetricCollection md settingName collection mgr =
     mgr(md \<mapsto> (case mgr md of None \<Rightarrow> Map.empty | Some inner \<Rightarrow> inner)(settingName \<mapsto> collection))"

definition getMetricCollection ::
  "'c \<Rightarrow> ('m, 'c) MetricsCollectionManager \<Rightarrow> 'm \<Rightarrow> string
     \<Rightarrow> 'c \<times> ('m, 'c) MetricsCollectionManager" where
  "getMetricCollection emptyCollection mgr md settingName =
     (case mgr md of
        None \<Rightarrow> (emptyCollection, mgr)
      | Some inner \<Rightarrow>
          (case inner settingName of
             None \<Rightarrow> (emptyCollection, mgr)
           | Some c \<Rightarrow> (c, mgr)))"

text \<open>A sequence of \<open>addMetricCollection\<close> calls, in order.\<close>

fun addAll ::
  "('m \<times> string \<times> 'c) list \<Rightarrow> ('m, 'c) MetricsCollectionManager \<Rightarrow> ('m, 'c) MetricsCollectionManager" where
  "addAll [] mgr = mgr"
| "addAll ((md, settingName, collection) # rest) mgr =
     addAll rest (addMetricCollection md settingName collection mgr)"

text \<open>Two records own disjoint column ranges.\<close>

definition ranges_disjoint :: "ASMFileInfo \<Rightarrow> ASMFileInfo \<Rightarrow> bool" where
  "ranges_disjoint a b = (colEnd a < colStart b \<or> colEnd b < colStart a)"

section \<open>Strings as the streams and \<open>std::string\<close> handle them\<close>

text \<open>
  \<open>operator<<\<close> on integers: decimal by default, lowercase hexadecimal under
  \<open>std::hex\<close>. \<open>digit_char\<close> is the digit of a value from 0 to 15;
  \<open>dec_digits\<close> and \<open>hex_digits\<close> print a value that is not negative.
\<close>

definition digit_char :: "int \<Rightarrow> char" where
  "digit_char d =
     (if d = 0 then CHR ''0'' else if d = 1 then CHR ''1'' else if d = 2 then CHR ''2''
      else if d = 3 then CHR ''3'' else if d = 4 then CHR ''4'' else if d = 5 then CHR ''5''
      else if d = 6 then CHR ''6'' else if d = 7 then CHR ''7'' else if d = 8 then CHR ''8''
      else if d = 9 then CHR ''9'' else if d = 10 then CHR ''a'' else if d = 11 then CHR ''b''
      else if d = 12 then CHR ''c'' else if d = 13 then CHR ''d'' else if d = 14 then CHR ''e''
      else CHR ''f'')"

function dec_digits :: "int \<Rightarrow> string" where
  "dec_digits n =
     (if n < 10 then [digit_char n] else dec_digits (n div 10) @ [digit_char (n mod 10)])"
  by pat_completeness auto
termination
  by (relation "measure nat") auto

declare dec_digits.simps [simp del]

definition dec_int :: "int \<Rightarrow> string" where
  "dec_int i = (if i < 0 then CHR ''-'' # dec_digits (- i) else dec_digits i)"

definition dec_nat :: "nat \<Rightarrow> string" where
  "dec_nat n = dec_digits (int n)"

function hex_digits :: "int \<Rightarrow> string" where
  "hex_digits n =
     (if n < 16 then [digit_char n] else hex_digits (n div 16) @ [digit_char (n mod 16)])"
  by pat_completeness auto
termination
  by (relation "measure nat") auto

declare hex_digits.simps [simp del]

text \<open>
  \<open>formatAddress\<close>: \<open>"0x"\<close>, then the address in hexadecimal, filled with
  \<open>'0'\<close> to a width of at least 10 (\<open>setw\<close> never truncates).
\<close>

definition formatAddress :: "64 word \<Rightarrow> string" where
  "formatAddress a =
     (let h = hex_digits (uint a) in ''0x'' @ replicate (10 - length h) (CHR ''0'') @ h)"

text \<open>
  \<open>starts_with p s\<close>: \<open>p\<close> is a prefix of \<open>s\<close>. \<open>str_contains s p\<close> is
  \<open>s.find(p) != std::string::npos\<close>.
\<close>

fun starts_with :: "string \<Rightarrow> string \<Rightarrow> bool" where
  "starts_with [] s = True"
| "starts_with (p # ps) [] = False"
| "starts_with (p # ps) (c # cs) = (p = c \<and> starts_with ps cs)"

fun str_contains :: "string \<Rightarrow> string \<Rightarrow> bool" where
  "str_contains s [] = True"
| "str_contains [] (p # ps) = False"
| "str_contains (c # cs) (p # ps) =
     (starts_with (p # ps) (c # cs) \<or> str_contains cs (p # ps))"

section \<open>Counter resolver\<close>

definition isThroughputMetric :: "string \<Rightarrow> bool" where
  "isThroughputMetric ms = (str_contains ms ''throughput'' \<or> str_contains ms ''bandwidth'')"

definition getPortDirection :: "string \<Rightarrow> 64 word \<Rightarrow> string" where
  "getPortDirection ms payload =
     (if ms = ''ddr_bandwidth'' \<or> ms = ''read_bandwidth'' \<or> ms = ''write_bandwidth''
      then (let isMaster = ((drop_bit 8 payload AND 1) \<noteq> 0)
            in if isMaster then ''output'' else ''input'')
      else if str_contains ms ''input'' \<or> str_contains ms ''s2mm'' then ''input''
      else if str_contains ms ''output'' \<or> str_contains ms ''mm2s'' then ''output''
      else [])"

text \<open>
  The metric-set lookup of \<open>getConfiguredCounters\<close>. The inner loop runs over one
  module's entries and stops at the first entry for the tile, whose metric set it
  stores; the outer loop runs over the modules and stops once the stored metric set
  is not empty. \<open>cur\<close> is \<open>info.metricSet\<close>, empty at the start.
\<close>

fun find_tile_metric :: "nat \<Rightarrow> nat \<Rightarrow> tile_metrics \<Rightarrow> string \<Rightarrow> string" where
  "find_tile_metric c r [] cur = cur"
| "find_tile_metric c r (tileMetric # rest) cur =
     (if fst (fst tileMetric) = c \<and> snd (fst tileMetric) = r then snd tileMetric
      else find_tile_metric c r rest cur)"

fun find_module_metric :: "nat \<Rightarrow> nat \<Rightarrow> tile_metrics list \<Rightarrow> string \<Rightarrow> string" where
  "find_module_metric c r [] cur = cur"
| "find_module_metric c r (moduleMetrics # rest) cur =
     (let cur' = find_tile_metric c r moduleMetrics cur
      in if cur' \<noteq> [] then cur' else find_module_metric c r rest cur')"

text \<open>The body of the loop of \<open>getConfiguredCounters\<close>, for a non-null counter.\<close>

definition resolveCounter :: "AieProfileCTWriter \<Rightarrow> AIECounter \<Rightarrow> CTCounterInfo" where
  "resolveCounter this aieCounter =
     (let ms = (case profileConfig this of
                  None \<Rightarrow> []
                | Some configMetrics \<Rightarrow>
                    find_module_metric (unat (aie_column aieCounter)) (unat (aie_row aieCounter))
                      configMetrics [])
      in \<lparr>column = aie_column aieCounter,
          row = aie_row aieCounter,
          counterNumber = aie_counterNumber aieCounter,
          module = aie_module aieCounter,
          address = calculateCounterAddress this (aie_column aieCounter) (aie_row aieCounter)
                      (aie_counterNumber aieCounter) (aie_module aieCounter),
          metricSet = ms,
          portDirection = (if isThroughputMetric ms
                           then getPortDirection ms (aie_payload aieCounter) else [])\<rparr>)"

fun getConfiguredCounters_loop ::
  "AieProfileCTWriter \<Rightarrow> AIECounter option list \<Rightarrow> CTCounterInfo list \<Rightarrow> CTCounterInfo list" where
  "getConfiguredCounters_loop this [] cs = cs"
| "getConfiguredCounters_loop this (None # rest) cs = getConfiguredCounters_loop this rest cs"
| "getConfiguredCounters_loop this (Some aieCounter # rest) cs =
     getConfiguredCounters_loop this rest (cs @ [resolveCounter this aieCounter])"

definition getConfiguredCounters :: "AieProfileCTWriter \<Rightarrow> CTCounterInfo list \<times> log" where
  "getConfiguredCounters this =
     (let cs = getConfiguredCounters_loop this (aieCounters this) []
      in (cs, [(debug, ''Retrieved '' @ dec_nat (length cs) @ '' configured AIE counters'')]))"

section \<open>Script emitter: counter metadata\<close>

text \<open>
  One entry of the \<open>counter_metadata\<close> list of \<open>writeCTFile\<close>, from the opening
  brace to the closing one. \<open>counter_metadata_fields\<close> is the part every entry has.
\<close>

definition counter_metadata_fields :: "CTCounterInfo \<Rightarrow> string" where
  \<open>counter_metadata_fields counter =
     ''        {"column": '' @ dec_int (uint (column counter))
     @ '', "row": '' @ dec_int (uint (row counter))
     @ '', "counter": '' @ dec_int (uint (counterNumber counter))
     @ '', "module": "'' @ module counter
     @ ''", "address": "'' @ formatAddress (address counter) @ ''"''\<close>

definition counter_metadata_entry :: "CTCounterInfo \<Rightarrow> string" where
  \<open>counter_metadata_entry counter =
     counter_metadata_fields counter
     @ (if metricSet counter \<noteq> [] then '', "metric_set": "'' @ metricSet counter @ ''"'' else [])
     @ (if portDirection counter \<noteq> []
        then '', "port_direction": "'' @ portDirection counter @ ''"'' else [])
     @ ''}''\<close>

text \<open>
  The loop over \<open>allCounters\<close>: an entry, a comma unless the counter is the last
  (\<open>i < allCounters.size() - 1\<close>), a newline.
\<close>

fun write_counter_metadata :: "CTCounterInfo list \<Rightarrow> string" where
  "write_counter_metadata [] = []"
| "write_counter_metadata (counter # rest) =
     counter_metadata_entry counter @ (if rest \<noteq> [] then '','' else []) @ [CHR 0x0A]
     @ write_counter_metadata rest"

section \<open>Manifest loader\<close>

text \<open>
  \<open>getline_all d s []\<close> is the sequence of strings that repeated calls of
  \<open>std::getline(stream, line, d)\<close> extract from a stream holding \<open>s\<close>, until the
  call fails: each call reads up to the next delimiter, and a call at the end of the
  stream that extracts nothing fails. The third argument holds the characters of the
  current call.
\<close>

fun getline_all :: "char \<Rightarrow> string \<Rightarrow> string \<Rightarrow> string list" where
  "getline_all d [] cur = (if cur = [] then [] else [cur])"
| "getline_all d (c # cs) cur =
     (if c = d then cur # getline_all d cs [] else getline_all d cs (cur @ [c]))"

text \<open>
  \<open>std::stoi\<close> (base 10): leading white space is skipped, an optional sign is read,
  then the longest run of digits; what follows is ignored. No digit at all throws
  \<open>std::invalid_argument\<close>, a value outside the range of a 32-bit \<open>int\<close> throws
  \<open>std::out_of_range\<close>. \<open>what\<close> is the text of the exception as libstdc++ sets it.
\<close>

datatype stoi_error = invalid_argument | out_of_range

definition isspace :: "char \<Rightarrow> bool" where
  "isspace c = (c = CHR '' '' \<or> c = CHR 0x09 \<or> c = CHR 0x0A \<or> c = CHR 0x0B
                \<or> c = CHR 0x0C \<or> c = CHR 0x0D)"

definition isdigit :: "char \<Rightarrow> bool" where
  "isdigit c = (c = CHR ''0'' \<or> c = CHR ''1'' \<or> c = CHR ''2'' \<or> c = CHR ''3'' \<or> c = CHR ''4''
                \<or> c = CHR ''5'' \<or> c = CHR ''6'' \<or> c = CHR ''7'' \<or> c = CHR ''8'' \<or> c = CHR ''9'')"

definition digit_value :: "char \<Rightarrow> int" where
  "digit_value c = of_char c - 48"

definition digits_value :: "string \<Rightarrow> int" where
  "digits_value ds = foldl (\<lambda>acc c. 10 * acc + digit_value c) 0 ds"

definition stoi :: "string \<Rightarrow> stoi_error + int" where
  "stoi s =
     (let s1 = dropWhile isspace s;
          neg = (case s1 of [] \<Rightarrow> False | c # r \<Rightarrow> c = CHR ''-'');
          s2 = (case s1 of [] \<Rightarrow> [] | c # r \<Rightarrow> if c = CHR ''-'' \<or> c = CHR ''+'' then r else s1);
          ds = takeWhile isdigit s2
      in if ds = [] then Inl invalid_argument
         else let v = (if neg then - digits_value ds else digits_value ds)
              in if v < - 2147483648 \<or> 2147483647 < v then Inl out_of_range else Inr v)"

definition what :: "stoi_error \<Rightarrow> string" where
  "what e = ''stoi''"

text \<open>
  The field splitter of \<open>readASMInfoFromCSV\<close>: a double quote toggles \<open>inQuote\<close>
  and is dropped, a comma outside quotes ends the field, the last field is added at
  the end of the line.
\<close>

fun split_fields :: "string \<Rightarrow> string \<Rightarrow> bool \<Rightarrow> string list \<Rightarrow> string list" where
  "split_fields [] field inQuote flds = flds @ [field]"
| "split_fields (c # cs) field inQuote flds =
     (if c = CHR 0x22 then split_fields cs field (\<not> inQuote) flds
      else if c = CHR '','' \<and> \<not> inQuote then split_fields cs [] inQuote (flds @ [field])
      else split_fields cs (field @ [c]) inQuote flds)"

text \<open>
  \<open>std::regex_search\<close> with the pattern \<open>aie_runtime_control(\d+)\.asm\<close>: the
  leftmost position where the literal, a non-empty maximal run of digits and
  \<open>.asm\<close> follow one another (the run must be maximal, since the character after it
  has to be the dot). The result is the text of the capture group.
\<close>

definition match_here :: "string \<Rightarrow> string option" where
  "match_here s =
     (if starts_with ''aie_runtime_control'' s
      then (let rest = drop (length ''aie_runtime_control'') s;
                ds = takeWhile isdigit rest;
                after = dropWhile isdigit rest
            in if ds \<noteq> [] \<and> starts_with ''.asm'' after then Some ds else None)
      else None)"

fun regex_search :: "string \<Rightarrow> string option" where
  "regex_search [] = match_here []"
| "regex_search (c # cs) =
     (case match_here (c # cs) of Some ds \<Rightarrow> Some ds | None \<Rightarrow> regex_search cs)"

text \<open>
  The loop over the comma-separated line numbers: an empty token is passed over, a
  token that \<open>std::stoi\<close> converts becomes a timestamp (the \<open>int\<close> is converted to
  \<open>uint32_t\<close>), a token on which it throws is logged inside the loop.
\<close>

fun parse_line_numbers :: "string \<Rightarrow> string list \<Rightarrow> SaveTimestampInfo list \<times> log" where
  "parse_line_numbers fname [] = ([], [])"
| "parse_line_numbers fname (lineNumStr # rest) =
     (case parse_line_numbers fname rest of (ts, lg) \<Rightarrow>
        if lineNumStr = [] then (ts, lg)
        else (case stoi lineNumStr of
                Inr v \<Rightarrow> (\<lparr>lineNumber = word_of_int v, optionalIndex = - 1\<rparr> # ts, lg)
              | Inl e \<Rightarrow>
                  (ts, (warning, ''Error parsing line number '' @ [CHR 0x27] @ lineNumStr @ [CHR 0x27]
                                 @ '' in '' @ fname)
                       # lg)))"

text \<open>
  Arithmetic on the 32-bit \<open>int\<close>. \<open>4 * info.asmId\<close>, \<open>info.asmId * 4\<close> and
  \<open>info.colStart + 3\<close> overflow for identifiers from 536870912 upwards, which
  \<open>std::stoi\<close> accepts. Signed overflow is undefined behaviour in C++; the compiled
  code computes the two's-complement result, and \<open>int32_wrap\<close> is that result
  (identifier 1073741824 gives \<open>ucNumber\<close> 0 and the columns 0 to 3).
\<close>

definition int32_wrap :: "int \<Rightarrow> int" where
  "int32_wrap x = (x + 2147483648) mod 4294967296 - 2147483648"

text \<open>
  One data line of the manifest. \<open>RowSkipped\<close> is a \<open>continue\<close>, \<open>RowLoaded\<close> a
  \<open>push_back\<close>, and \<open>RowThrew\<close> an exception that leaves the body of the loop:
  the \<open>std::stoi\<close> of the identifier is not inside the inner \<open>try\<close>.
\<close>

datatype row_result = RowSkipped | RowLoaded ASMFileInfo | RowThrew stoi_error

definition parse_row :: "int \<Rightarrow> string \<Rightarrow> row_result \<times> log" where
  "parse_row lineNum line =
     (let flds = split_fields line [] False []
      in if length flds \<noteq> 3
         then (RowSkipped,
               [(warning, ''Invalid CSV format at line '' @ dec_int lineNum
                          @ '': expected 3 fields, got '' @ dec_nat (length flds))])
         else
           (let fname = flds ! 1
            in case regex_search fname of
                 None \<Rightarrow>
                   (RowSkipped, [(warning, ''Unable to extract ASM ID from filename: '' @ fname)])
               | Some digits \<Rightarrow>
                   (case stoi digits of
                      Inl e \<Rightarrow> (RowThrew e, [])
                    | Inr n \<Rightarrow>
                        (case parse_line_numbers fname (getline_all (CHR '','') (flds ! 2) [])
                         of (ts, lg) \<Rightarrow>
                           (RowLoaded
                              \<lparr>filename = fname, asmId = n, ucNumber = int32_wrap (4 * n),
                               colStart = int32_wrap (n * 4),
                               colEnd = int32_wrap (int32_wrap (n * 4) + 3),
                               timestamps = ts, counters = []\<rparr>,
                            lg @ [(debug, ''Loaded '' @ fname @ '' (id='' @ dec_int n
                                   @ '', uc='' @ dec_int (int32_wrap (4 * n))
                                   @ '', columns '' @ dec_int (int32_wrap (n * 4))
                                   @ ''-'' @ dec_int (int32_wrap (int32_wrap (n * 4) + 3))
                                   @ '', '' @ dec_nat (length ts) @ '' timestamps)'')])))))"

text \<open>
  The \<open>while\<close> loop over the lines, inside the outer \<open>try\<close>. An exception out of
  a row ends the loop: the handler logs it, and the records pushed so far stay.
\<close>

fun scan_lines :: "bool \<Rightarrow> int \<Rightarrow> string list \<Rightarrow> ASMFileInfo list \<times> log" where
  "scan_lines isHeader lineNum [] = ([], [])"
| "scan_lines isHeader lineNum (line # rest) =
     (if isHeader then scan_lines False (lineNum + 1) rest
      else if line = [] then scan_lines False (lineNum + 1) rest
      else (case parse_row (lineNum + 1) line of
              (RowSkipped, lg) \<Rightarrow>
                (case scan_lines False (lineNum + 1) rest of (fs, lg') \<Rightarrow> (fs, lg @ lg'))
            | (RowLoaded i, lg) \<Rightarrow>
                (case scan_lines False (lineNum + 1) rest of (fs, lg') \<Rightarrow> (i # fs, lg @ lg'))
            | (RowThrew e, lg) \<Rightarrow>
                ([], lg @ [(warning, ''Error parsing CSV at line '' @ dec_int (lineNum + 1)
                                     @ '': '' @ what e)])))"

text \<open>
  \<open>readASMInfoFromCSV\<close>: the second argument is the content of the file at
  \<open>csvPath\<close>, \<open>None\<close> when it cannot be opened. \<open>std::sort\<close> by \<open>asmId\<close> leaves
  the order of records with equal \<open>asmId\<close> unspecified; the insertion sort
  \<open>sort_key\<close> keeps them in input order.
\<close>

definition readASMInfoFromCSV :: "string \<Rightarrow> string option \<Rightarrow> ASMFileInfo list \<times> log" where
  "readASMInfoFromCSV path file =
     (case file of
        None \<Rightarrow>
          ([], [(warning, ''Unable to open CSV file: '' @ path
                          @ ''. Please run parse_aie_runtime_to_csv.py first.'')])
      | Some content \<Rightarrow>
          (case scan_lines True 0 (getline_all (CHR 0x0A) content []) of (asmFiles, lg) \<Rightarrow>
             (let sorted = sort_key asmId asmFiles
              in (sorted,
                  lg @ [(info, ''Loaded '' @ dec_nat (length sorted) @ '' ASM files from CSV with ''
                         @ dec_nat (sum_list (map (\<lambda>i. length (timestamps i)) sorted))
                         @ '' total SAVE_TIMESTAMPS'')]))))"

text \<open>
  Predicates on the text of a manifest, used to state the results. A line has an
  identifier out of range when it has three fields, its file name matches the pattern
  and \<open>std::stoi\<close> throws on the captured digits. A line-number token is usable when
  it is not empty and \<open>std::stoi\<close> converts it; \<open>token_timestamp\<close> is the
  timestamp it then becomes.
\<close>

definition id_out_of_range :: "string \<Rightarrow> bool" where
  "id_out_of_range line =
     (let flds = split_fields line [] False []
      in length flds = 3 \<and>
         (case regex_search (flds ! 1) of
            None \<Rightarrow> False
          | Some ds \<Rightarrow> (case stoi ds of Inl e \<Rightarrow> True | Inr n \<Rightarrow> False)))"

definition token_ok :: "string \<Rightarrow> bool" where
  "token_ok t = (t \<noteq> [] \<and> (case stoi t of Inl e \<Rightarrow> False | Inr v \<Rightarrow> True))"

definition token_timestamp :: "string \<Rightarrow> SaveTimestampInfo" where
  "token_timestamp t =
     \<lparr>lineNumber = (case stoi t of Inl e \<Rightarrow> 0 | Inr v \<Rightarrow> word_of_int v), optionalIndex = - 1\<rparr>"

section \<open>Script emitter: the CT file\<close>

text \<open>\<open>text_lines\<close> writes each string of a list followed by a newline.\<close>

definition text_lines :: "string list \<Rightarrow> string" where
  "text_lines ls = concat (map (\<lambda>l. l @ [CHR 0x0A]) ls)"

text \<open>
  The loops of the form \<open>if (i > 0) out << sep; out << item\<close>: the items with the
  separator between them.
\<close>

fun join_with :: "string \<Rightarrow> string list \<Rightarrow> string" where
  "join_with sep [] = []"
| "join_with sep [x] = x"
| "join_with sep (x # y # rest) = x @ sep @ join_with sep (y # rest)"

text \<open>\<open>fs::path(s).filename().string()\<close>: what follows the last \<open>/\<close>.\<close>

definition path_filename :: "string \<Rightarrow> string" where
  "path_filename s = rev (takeWhile (\<lambda>c. c \<noteq> CHR ''/'') (rev s))"

text \<open>The text before the counter metadata, after it, and the \<open>end\<close> block.\<close>

definition ct_preamble :: string where
  \<open>ct_preamble = text_lines
     [''# Auto-generated CT file for AIE Profile counters'',
      ''# Generated by XRT AIE Profile Plugin'',
      '''',
      ''begin'',
      ''{'',
      ''    ts_start = timestamp32()'',
      ''    print("'' @ [CHR 0x5C] @ ''nAIE Profile tracing started'' @ [CHR 0x5C] @ ''n")'',
      ''@blockopen'',
      ''import json'',
      ''import os'',
      '''',
      ''# Initialize data collection'',
      ''profile_data = {'',
      ''    "start_timestamp": ts_start,'',
      ''    "counter_metadata": ['']\<close>

definition ct_metadata_close :: string where
  \<open>ct_metadata_close = text_lines
     [''    ],'',
      ''    "probes": []'',
      ''}'',
      ''@blockclose'',
      ''}'',
      '''']\<close>

definition ct_epilogue :: string where
  \<open>ct_epilogue = text_lines
     [''end'',
      ''{'',
      ''    ts_end = timestamp32()'',
      ''    print("'' @ [CHR 0x5C] @ ''nAIE Profile tracing ended'' @ [CHR 0x5C] @ ''n")'',
      ''@blockopen'',
      ''profile_data["end_timestamp"] = ts_end'',
      ''profile_data["total_time"] = ts_end - profile_data["start_timestamp"]'',
      '''',
      ''output_path = os.path.join(os.getcwd(), "aie_profile_counters.json")'',
      ''with open(output_path, "w") as f:'',
      ''    json.dump(profile_data, f, indent=2)'',
      ''print(f"Profile data written to {output_path}")'',
      ''@blockclose'',
      ''}'']\<close>

text \<open>The register reads of a block: \<open>ctr_i = read_reg(address)\<close>, \<open>i\<close> from 0.\<close>

fun write_counter_reads :: "CTCounterInfo list \<Rightarrow> nat \<Rightarrow> string" where
  "write_counter_reads [] i = []"
| "write_counter_reads (counter # rest) i =
     ''    ctr_'' @ dec_nat i @ '' = read_reg('' @ formatAddress (address counter) @ '')''
     @ [CHR 0x0A] @ write_counter_reads rest (i + 1)"

text \<open>
  \<open>tileCounters\<close> is a \<open>std::map\<close> from the pair (column, row) to a vector of
  indices: here the list of its entries in iteration order, which is the order of
  the keys under \<open>operator<\<close> of \<open>std::pair\<close>. \<open>map_push_back key i m\<close> is
  \<open>m[key].push_back(i)\<close>, which creates the entry when the key is new.
\<close>

type_synonym tile_map = "((8 word \<times> 8 word) \<times> nat list) list"

definition pair_less :: "8 word \<times> 8 word \<Rightarrow> 8 word \<times> 8 word \<Rightarrow> bool" where
  "pair_less a b = (fst a < fst b \<or> (\<not> fst b < fst a \<and> snd a < snd b))"

fun map_push_back :: "8 word \<times> 8 word \<Rightarrow> nat \<Rightarrow> tile_map \<Rightarrow> tile_map" where
  "map_push_back key i [] = [(key, [i])]"
| "map_push_back key i ((k, v) # m) =
     (if pair_less key k then (key, [i]) # (k, v) # m
      else if pair_less k key then (k, v) # map_push_back key i m
      else (k, v @ [i]) # m)"

fun group_by_tile :: "CTCounterInfo list \<Rightarrow> nat \<Rightarrow> tile_map \<Rightarrow> tile_map" where
  "group_by_tile [] i tileCounters = tileCounters"
| "group_by_tile (counter # rest) i tileCounters =
     group_by_tile rest (i + 1) (map_push_back (column counter, row counter) i tileCounters)"

text \<open>
  The loop over \<open>tileCounters\<close>: one line per tile, a comma after each but the last
  (\<open>tileIdx < tileCounters.size() - 1\<close>).
\<close>

definition tile_entry :: "(8 word \<times> 8 word) \<times> nat list \<Rightarrow> string" where
  \<open>tile_entry tilePair =
     ''        {"col": '' @ dec_int (uint (fst (fst tilePair)))
     @ '', "row": '' @ dec_int (uint (snd (fst tilePair)))
     @ '', "counters": ['' @ join_with '', '' (map (\<lambda>j. ''ctr_'' @ dec_nat j) (snd tilePair))
     @ '']}''\<close>

fun write_tiles :: "tile_map \<Rightarrow> string" where
  "write_tiles [] = []"
| "write_tiles (tilePair # rest) =
     tile_entry tilePair @ (if rest \<noteq> [] then '','' else []) @ [CHR 0x0A] @ write_tiles rest"

text \<open>The block of one record that has timestamps and counters.\<close>

definition jprobe_block :: "ASMFileInfo \<Rightarrow> string" where
  \<open>jprobe_block asmFile =
     (let basename = path_filename (filename asmFile);
          lineList = ''line'' @ join_with '',''
                       (map (\<lambda>t. dec_int (uint (lineNumber t))) (timestamps asmFile))
      in text_lines
           [''# Probes for '' @ basename @ '' (columns '' @ dec_int (colStart asmFile) @ ''-''
              @ dec_int (colEnd asmFile) @ '')'',
            ''jprobe:'' @ basename @ '':uc'' @ dec_int (ucNumber asmFile) @ '':'' @ lineList,
            ''{'',
            ''    ts = timestamp32()'']
         @ write_counter_reads (counters asmFile) 0
         @ text_lines
           [''    print(f"Probe fired: ts={ts}")'',
            ''@blockopen'',
            ''profile_data["probes"].append({'',
            ''    "asm_file": "'' @ basename @ ''",'',
            ''    "timestamp": ts,'',
            ''    "tiles": ['']
         @ write_tiles (group_by_tile (counters asmFile) 0 [])
         @ text_lines
           [''    ]'',
            ''})'',
            ''@blockclose'',
            ''}'',
            ''''])\<close>

fun write_jprobe_blocks :: "ASMFileInfo list \<Rightarrow> string" where
  "write_jprobe_blocks [] = []"
| "write_jprobe_blocks (asmFile # rest) =
     (if timestamps asmFile = [] \<or> counters asmFile = [] then write_jprobe_blocks rest
      else jprobe_block asmFile @ write_jprobe_blocks rest)"

definition ct_text :: "ASMFileInfo list \<Rightarrow> CTCounterInfo list \<Rightarrow> string" where
  "ct_text asmFiles allCounters =
     ct_preamble @ write_counter_metadata allCounters @ ct_metadata_close
     @ write_jprobe_blocks asmFiles @ ct_epilogue"

section \<open>The files and \<open>generate\<close>\<close>

text \<open>
  The two files of the working directory: the manifest, \<open>None\<close> when it cannot be
  opened for reading, and the CT file, \<open>None\<close> when it does not exist.
  \<open>ct_openable\<close> tells whether the \<open>std::ofstream\<close> on the output path opens;
  when it does, the file is created or truncated and holds what is written to it.
\<close>

record fs_state =
  csv_file :: "string option"
  ct_file :: "string option"
  ct_openable :: bool

definition writeCTFile ::
  "AieProfileCTWriter \<Rightarrow> ASMFileInfo list \<Rightarrow> CTCounterInfo list \<Rightarrow> fs_state
     \<Rightarrow> bool \<times> fs_state \<times> log" where
  "writeCTFile this asmFiles allCounters fs =
     (if \<not> ct_openable fs
      then (False, fs, [(warning, ''Unable to create CT file: '' @ outputPath this)])
      else (True, fs\<lparr>ct_file := Some (ct_text asmFiles allCounters)\<rparr>,
            [(info, ''Generated CT file: '' @ outputPath this)]))"

text \<open>
  Step 3 of \<open>generate\<close>: the loop sets \<open>hasTimestamps\<close> and stores the filtered
  counters in each record.
\<close>

fun assign_counters ::
  "CTCounterInfo list \<Rightarrow> ASMFileInfo list \<Rightarrow> bool \<Rightarrow> bool \<times> ASMFileInfo list" where
  "assign_counters allCounters [] hasTimestamps = (hasTimestamps, [])"
| "assign_counters allCounters (asmFile # rest) hasTimestamps =
     (case assign_counters allCounters rest (hasTimestamps \<or> timestamps asmFile \<noteq> [])
      of (h, files') \<Rightarrow>
        (h, asmFile\<lparr>counters := filterCountersByColumn allCounters (colStart asmFile)
                                   (colEnd asmFile)\<rparr> # files'))"

definition generate :: "AieProfileCTWriter \<Rightarrow> fs_state \<Rightarrow> bool \<times> fs_state \<times> log" where
  "generate this fs =
     (case readASMInfoFromCSV (csvPath this) (csv_file fs) of (asmFiles, lg1) \<Rightarrow>
        if asmFiles = []
        then (False, fs,
              lg1 @ [(debug, ''No ASM file information found in CSV. CT file will not be generated.'')])
        else
          (case getConfiguredCounters this of (allCounters, lg2) \<Rightarrow>
             if allCounters = []
             then (False, fs,
                   lg1 @ lg2 @ [(debug, ''No AIE counters configured. CT file will not be generated.'')])
             else
               (case assign_counters allCounters asmFiles False of (hasTimestamps, asmFiles') \<Rightarrow>
                  if \<not> hasTimestamps
                  then (False, fs,
                        lg1 @ lg2 @ [(debug, ''No SAVE_TIMESTAMPS instructions found in CSV. CT file will not be generated.'')])
                  else
                    (case writeCTFile this asmFiles' allCounters fs of (ok, fs', lg3) \<Rightarrow>
                       (ok, fs', lg1 @ lg2 @ lg3)))))"

text \<open>The counters of the configuration store that are not null, in index order.\<close>

fun non_null :: "'a option list \<Rightarrow> 'a list" where
  "non_null [] = []"
| "non_null (None # rest) = non_null rest"
| "non_null (Some a # rest) = a # non_null rest"

text \<open>
  Two writers have the same counter configuration when they agree on the shifts, on
  the counters of the store and on the metric-set mapping; their paths may differ.
\<close>

definition same_configuration :: "AieProfileCTWriter \<Rightarrow> AieProfileCTWriter \<Rightarrow> bool" where
  "same_configuration w1 w2 =
     (columnShift w1 = columnShift w2 \<and> rowShift w1 = rowShift w2
      \<and> aieCounters w1 = aieCounters w2 \<and> profileConfig w1 = profileConfig w2)"

section \<open>Example inputs\<close>

definition ex_counter :: "8 word \<Rightarrow> 8 word \<Rightarrow> 8 word \<Rightarrow> CTCounterInfo" where
  "ex_counter c r k =
     \<lparr>column = c, row = r, counterNumber = k, module = ''aie'', address = 0,
      metricSet = [], portDirection = []\<rparr>"

definition ex_file :: "int \<Rightarrow> ASMFileInfo" where
  "ex_file n =
     \<lparr>filename = ''aie_runtime_control.asm'', asmId = n, ucNumber = int32_wrap (4 * n),
      colStart = int32_wrap (n * 4), colEnd = int32_wrap (int32_wrap (n * 4) + 3),
      timestamps = [], counters = []\<rparr>"

definition ex_writer :: "AIECounter option list \<Rightarrow> tile_metrics list option \<Rightarrow> AieProfileCTWriter" where
  "ex_writer cs cfg =
     \<lparr>columnShift = 25, rowShift = 20, aieCounters = cs, profileConfig = cfg,
      csvPath = ''/run/aie_profile_timestamps.csv'', outputPath = ''/run/aie_profile.ct''\<rparr>"

definition ex_aie :: "8 word \<Rightarrow> 8 word \<Rightarrow> 8 word \<Rightarrow> string \<Rightarrow> 64 word \<Rightarrow> AIECounter" where
  "ex_aie c r k m p =
     \<lparr>aie_column = c, aie_row = r, aie_counterNumber = k, aie_module = m, aie_payload = p\<rparr>"

text \<open>Manifests.\<close>

definition ex_row_bad_token :: string where
  \<open>ex_row_bad_token = ''/work,aie_runtime_control1.asm,"6,8,x,293"''\<close>

definition ex_manifest_bad_token :: string where
  "ex_manifest_bad_token = text_lines
     [''filepath,filename,line_numbers'',
      ''/work,aie_runtime_control0.asm,9'',
      ex_row_bad_token,
      ''/work,aie_runtime_control2.asm,12'']"

definition ex_manifest_big_id :: string where
  \<open>ex_manifest_big_id = text_lines
     [''filepath,filename,line_numbers'',
      ''/work,aie_runtime_control0.asm,9'',
      ''/work,aie_runtime_control99999999999.asm,7'',
      ''/work,aie_runtime_control1.asm,"6,8,293"'']\<close>

text \<open>The record of control program \<open>n\<close> with the given line numbers.\<close>

definition ex_record :: "int \<Rightarrow> 32 word list \<Rightarrow> ASMFileInfo" where
  "ex_record n ls =
     \<lparr>filename = ''aie_runtime_control'' @ dec_int n @ ''.asm'', asmId = n,
      ucNumber = int32_wrap (4 * n), colStart = int32_wrap (n * 4),
      colEnd = int32_wrap (int32_wrap (n * 4) + 3),
      timestamps = map (\<lambda>l. \<lparr>lineNumber = l, optionalIndex = - 1\<rparr>) ls, counters = []\<rparr>"

definition ex_manifest_one :: string where
  \<open>ex_manifest_one = text_lines
     [''filepath,filename,line_numbers'',
      ''/work,aie_runtime_control0.asm,"6,8,293"'']\<close>

definition ex_fs :: "string option \<Rightarrow> string option \<Rightarrow> bool \<Rightarrow> fs_state" where
  "ex_fs csv ct ok = \<lparr>csv_file = csv, ct_file = ct, ct_openable = ok\<rparr>"

text \<open>A writer whose only configured counter is in column 5.\<close>

definition ex_writer_col5 :: AieProfileCTWriter where
  "ex_writer_col5 = ex_writer [Some (ex_aie 5 2 0 ''aie'' 0), None] None"

text \<open>
  A writer whose only configured counter is in column 1, and the same writer run from
  another working directory.
\<close>

definition ex_writer_in_range :: AieProfileCTWriter where
  "ex_writer_in_range = ex_writer [Some (ex_aie 1 2 0 ''aie'' 0), None] None"

definition ex_writer_other_paths :: AieProfileCTWriter where
  "ex_writer_other_paths =
     ex_writer_in_range\<lparr>csvPath := ''/other/aie_profile_timestamps.csv'',
                         outputPath := ''/other/aie_profile.ct''\<rparr>"

text \<open>A data row whose identifier makes \<open>4 * asmId\<close> overflow.\<close>

definition ex_row_wrapping_id :: string where
  \<open>ex_row_wrapping_id = ''/work,aie_runtime_control1073741824.asm,"6,x,8"''\<close>

section \<open>Properties of the register address\<close>

lemma counterOffset_eq: "(word_of_int (uint (k :: 8 word) * 4) :: 64 word) = 4 * ucast k"
  unfolding ucast_eq by simp

lemma uint_succ_u8: "unat (k :: 8 word) < 255 \<Longrightarrow> uint (k + 1) = uint k + 1"
proof -
  assume h: "unat k < 255"
  have "unat k + unat (1 :: 8 word) < 2 ^ LENGTH(8)" using h by simp
  then have "unat (k + 1) = unat k + unat (1 :: 8 word)" by (simp only: unat_add_lem)
  then have "unat (k + 1) = unat k + 1" by simp
  then have "int (unat (k + 1)) = int (unat k) + 1" by simp
  then show ?thesis by (simp only: uint_nat)
qed

lemma getModuleBaseOffset_cases:
  "getModuleBaseOffset ''aie'' = 0x37520"
  "getModuleBaseOffset ''aie_memory'' = 0x11020"
  "getModuleBaseOffset ''memory_tile'' = 0x91020"
  "getModuleBaseOffset ''interface_tile'' = 0x31020"
  by (simp_all add: getModuleBaseOffset_def CORE_MODULE_BASE_OFFSET_def
      MEMORY_MODULE_BASE_OFFSET_def MEM_TILE_BASE_OFFSET_def SHIM_TILE_BASE_OFFSET_def)

lemma getModuleBaseOffset_other:
  "m \<noteq> ''aie_memory'' \<Longrightarrow> m \<noteq> ''memory_tile'' \<Longrightarrow> m \<noteq> ''interface_tile''
     \<Longrightarrow> getModuleBaseOffset m = 0x37520"
  by (simp add: getModuleBaseOffset_def CORE_MODULE_BASE_OFFSET_def)

text \<open>
  C1. \<open>calculateCounterAddress\<close> returns
  \<open>((uint64(c) << columnShift) | (uint64(r) << rowShift)) + base(m) + 4 * k\<close> in 64-bit
  arithmetic, where the base of the four known module strings is its fixed constant
  and every other string has the base of \<open>"aie"\<close>. The address is a function of
  (shifts, c, r, k, m) alone: two writers with the same shifts compute the same
  address. Raising the counter index by one (within \<open>uint8\<close>) raises the address
  by exactly 4.
\<close>

theorem calculateCounterAddress_formula:
  "calculateCounterAddress w c r k m =
           (push_bit (unat (columnShift w)) (ucast c) OR push_bit (unat (rowShift w)) (ucast r))
             + getModuleBaseOffset m + 4 * ucast k
         \<and> getModuleBaseOffset ''aie'' = 0x37520
         \<and> getModuleBaseOffset ''aie_memory'' = 0x11020
         \<and> getModuleBaseOffset ''memory_tile'' = 0x91020
         \<and> getModuleBaseOffset ''interface_tile'' = 0x31020
         \<and> (m \<notin> {''aie_memory'', ''memory_tile'', ''interface_tile''}
              \<longrightarrow> getModuleBaseOffset m = getModuleBaseOffset ''aie'')
         \<and> (unat k < 255
              \<longrightarrow> calculateCounterAddress w c r (k + 1) m
                     = calculateCounterAddress w c r k m + 4)
         \<and> (columnShift w' = columnShift w \<and> rowShift w' = rowShift w
              \<longrightarrow> calculateCounterAddress w' c r k m = calculateCounterAddress w c r k m)"
proof -
  have f: "calculateCounterAddress w c r k m =
           (push_bit (unat (columnShift w)) (ucast c) OR push_bit (unat (rowShift w)) (ucast r))
             + getModuleBaseOffset m + 4 * ucast k"
    by (simp only: calculateCounterAddress_def Let_def counterOffset_eq)
  have s: "unat k < 255 \<Longrightarrow> calculateCounterAddress w c r (k + 1) m
                     = calculateCounterAddress w c r k m + 4"
  proof -
    assume h: "unat k < 255"
    have "(word_of_int (uint (k + 1) * 4) :: 64 word) = word_of_int (uint k * 4) + 4"
    proof -
      have "uint (k + 1) * 4 = uint k * 4 + 4" by (simp only: uint_succ_u8 [OF h]) simp
      then show ?thesis by (simp only: wi_hom_syms) simp
    qed
    then show ?thesis by (simp only: calculateCounterAddress_def Let_def add.assoc)
  qed
  have o: "m \<notin> {''aie_memory'', ''memory_tile'', ''interface_tile''} \<Longrightarrow>
     getModuleBaseOffset m = getModuleBaseOffset ''aie''"
    by (simp add: getModuleBaseOffset_other getModuleBaseOffset_cases)
  have d: "columnShift w' = columnShift w \<and> rowShift w' = rowShift w \<Longrightarrow>
     calculateCounterAddress w' c r k m = calculateCounterAddress w c r k m"
    by (simp add: calculateCounterAddress_def)
  show ?thesis using f s o d by (simp add: getModuleBaseOffset_cases)
qed

theorem calculateCounterAddress_formula_witness:
  "unat (3 :: 8 word) < 255
   \<and> calculateCounterAddress (ex_writer [] None) 1 2 3 ''dma'' = 0x223752C
   \<and> calculateCounterAddress (ex_writer [] None) 1 2 (3 + 1) ''dma'' = 0x223752C + 4
   \<and> getModuleBaseOffset ''dma'' = 0x37520
   \<and> calculateCounterAddress ex_writer_col5 1 2 3 ''dma'' = 0x223752C"
  using calculateCounterAddress_formula [where w = "ex_writer [] None" and c = 1
      and r = 2 and k = 3 and m = "''dma''" and w' = ex_writer_col5]
  by (simp add: ex_writer_def ex_writer_col5_def)

section \<open>Properties of the column-range filter\<close>

lemma filterCountersByColumn_loop_eq:
  "filterCountersByColumn_loop xs cs ce acc =
     acc @ filter (\<lambda>c. cs \<le> uint (column c) \<and> uint (column c) \<le> ce) xs"
  by (induction xs arbitrary: acc) simp_all

lemma filterCountersByColumn_eq:
  "filterCountersByColumn xs cs ce =
     filter (\<lambda>c. cs \<le> uint (column c) \<and> uint (column c) \<le> ce) xs"
  by (simp add: filterCountersByColumn_def filterCountersByColumn_loop_eq)

text \<open>
  C6. A counter of the input list is in the result of \<open>filterCountersByColumn\<close> iff
  its column lies in \<open>[colStart, colEnd]\<close>; the result is a subsequence of the input
  (relative order preserved); and a counter in the filtered set of one record is in
  the filtered set of no other record whose column range is disjoint from the first.
\<close>

theorem filterCountersByColumn_spec:
  "(x \<in> set (filterCountersByColumn xs cs ce)
      \<longleftrightarrow> x \<in> set xs \<and> cs \<le> uint (column x) \<and> uint (column x) \<le> ce)
   \<and> subseq (filterCountersByColumn xs cs ce) xs
   \<and> (i < length files \<and> j < length files \<and> i \<noteq> j
        \<and> ranges_disjoint (files ! i) (files ! j)
        \<and> x \<in> set (filterCountersByColumn xs (colStart (files ! i)) (colEnd (files ! i)))
       \<longrightarrow> x \<notin> set (filterCountersByColumn xs (colStart (files ! j)) (colEnd (files ! j))))"
  by (auto simp add: filterCountersByColumn_eq ranges_disjoint_def)

theorem filterCountersByColumn_spec_witness:
  "ex_counter 1 2 0 \<in> set (filterCountersByColumn [ex_counter 5 2 0, ex_counter 1 2 0] 0 3)
   \<and> subseq (filterCountersByColumn [ex_counter 5 2 0, ex_counter 1 2 0] 0 3)
        [ex_counter 5 2 0, ex_counter 1 2 0]
   \<and> (0::nat) < length [ex_file 0, ex_file 1] \<and> (1::nat) < length [ex_file 0, ex_file 1]
   \<and> (0::nat) \<noteq> 1
   \<and> ranges_disjoint ([ex_file 0, ex_file 1] ! 0) ([ex_file 0, ex_file 1] ! 1)
   \<and> ex_counter 1 2 0 \<in> set (filterCountersByColumn [ex_counter 5 2 0, ex_counter 1 2 0]
        (colStart ([ex_file 0, ex_file 1] ! 0)) (colEnd ([ex_file 0, ex_file 1] ! 0)))
   \<and> ex_counter 1 2 0 \<notin> set (filterCountersByColumn [ex_counter 5 2 0, ex_counter 1 2 0]
        (colStart ([ex_file 0, ex_file 1] ! 1)) (colEnd ([ex_file 0, ex_file 1] ! 1)))"
  using filterCountersByColumn_spec [where x = "ex_counter 1 2 0"
      and xs = "[ex_counter 5 2 0, ex_counter 1 2 0]" and cs = 0 and ce = 3
      and i = 0 and j = 1 and files = "[ex_file 0, ex_file 1]"]
  by (simp add: ex_counter_def ex_file_def ranges_disjoint_def int32_wrap_def)

section \<open>Properties of the metrics collection manager\<close>

lemma get_no_entry:
  "(case mgr md of None \<Rightarrow> True | Some inner \<Rightarrow> inner name = None) \<Longrightarrow>
    getMetricCollection e mgr md name = (e, mgr)"
  by (simp add: getMetricCollection_def split: option.splits)

lemma addAll_no_entry:
  "(case mgr md of None \<Rightarrow> True | Some inner \<Rightarrow> inner name = None) \<Longrightarrow>
   \<forall>(md', name', c') \<in> set ops. (md', name') \<noteq> (md, name) \<Longrightarrow>
   (case addAll ops mgr md of None \<Rightarrow> True | Some inner \<Rightarrow> inner name = None)"
proof (induction ops arbitrary: mgr)
  case Nil
  then show ?case by simp
next
  case (Cons op ops)
  obtain md' name' c' where op: "op = (md', name', c')" by (cases op) auto
  have ne: "(md', name') \<noteq> (md, name)" using Cons.prems(2) op by auto
  have "case addMetricCollection md' name' c' mgr md of
          None \<Rightarrow> True | Some inner \<Rightarrow> inner name = None"
    using Cons.prems(1) ne by (auto simp add: addMetricCollection_def split: option.splits)
  moreover have "\<forall>(md', name', c') \<in> set ops. (md', name') \<noteq> (md, name)"
    using Cons.prems(2) by simp
  ultimately show ?case using Cons.IH op by simp
qed

text \<open>
  C9. After any sequence of \<open>addMetricCollection\<close> calls on an empty manager, none of
  them for the key \<open>(md, name)\<close>, \<open>getMetricCollection md name\<close> returns the empty
  collection; a lookup never changes the manager; after
  \<open>addMetricCollection md name c\<close> the lookup of \<open>(md, name)\<close> returns \<open>c\<close>, a
  second add for the same key replaces it, and an add for another key does not.
\<close>

theorem getMetricCollection_lookup:
  "((\<forall>(md', name', c') \<in> set ops. (md', name') \<noteq> (md, name)) \<longrightarrow>
      getMetricCollection e (addAll ops Map.empty) md name = (e, addAll ops Map.empty))
   \<and> snd (getMetricCollection e mgr md name) = mgr
   \<and> fst (getMetricCollection e (addMetricCollection md name c mgr) md name) = c
   \<and> fst (getMetricCollection e
        (addMetricCollection md name c' (addMetricCollection md name c mgr)) md name) = c'
   \<and> ((md', name') \<noteq> (md, name) \<longrightarrow>
        fst (getMetricCollection e
          (addMetricCollection md' name' c' (addMetricCollection md name c mgr)) md name) = c)"
proof -
  have a: "(\<forall>(md', name', c') \<in> set ops. (md', name') \<noteq> (md, name)) \<Longrightarrow>
      getMetricCollection e (addAll ops Map.empty) md name = (e, addAll ops Map.empty)"
    by (rule get_no_entry, rule addAll_no_entry) simp_all
  have b: "snd (getMetricCollection e mgr md name) = mgr"
    by (simp add: getMetricCollection_def split: option.splits)
  have c: "\<And>c mgr. fst (getMetricCollection e (addMetricCollection md name c mgr) md name) = c"
    by (simp add: getMetricCollection_def addMetricCollection_def)
  have d: "(md', name') \<noteq> (md, name) \<Longrightarrow>
        fst (getMetricCollection e
          (addMetricCollection md' name' c' (addMetricCollection md name c mgr)) md name) = c"
    by (auto simp add: getMetricCollection_def addMetricCollection_def)
  show ?thesis using a b c d by blast
qed

theorem getMetricCollection_lookup_witness:
  "((1::nat), ''a'') \<noteq> (1, ''b'') \<and> ((2::nat), ''b'') \<noteq> (1, ''b'')
   \<and> getMetricCollection [] (addAll [(1::nat, ''a'', [1::nat]), (2, ''b'', [2])] Map.empty) 1 ''b''
       = ([], addAll [(1::nat, ''a'', [1::nat]), (2, ''b'', [2])] Map.empty)
   \<and> ((2::nat), ''b'') \<noteq> (1, ''b'')
   \<and> fst (getMetricCollection [] (addMetricCollection 2 ''b'' [2]
          (addMetricCollection (1::nat) ''b'' [1::nat] Map.empty)) 1 ''b'') = [1]"
  using getMetricCollection_lookup [where ops = "[(1::nat, ''a'', [1::nat]), (2, ''b'', [2])]"
      and md = 1 and name = "''b''" and e = "[]" and md' = 2 and name' = "''b''"
      and c' = "[2]" and c = "[1]" and mgr = Map.empty]
  by simp

section \<open>Properties of the counter resolver\<close>

lemma payload_bit8: "((drop_bit 8 (p :: 64 word) AND 1) \<noteq> 0) = bit p 8"
  by (metis and_exp_eq_0_iff_not_bit bit_iff_and_drop_bit_eq_1 drop_bit_rec power_0)

lemma getPortDirection_read_bandwidth:
  "getPortDirection ''read_bandwidth'' p = (if bit p 8 then ''output'' else ''input'')"
  by (simp add: getPortDirection_def payload_bit8)

lemma getPortDirection_mm2s: "getPortDirection ''mm2s_throughput'' p = ''output''"
  by (simp add: getPortDirection_def)

lemma isThroughput_known:
  "isThroughputMetric ''read_bandwidth''" "isThroughputMetric ''mm2s_throughput''"
  by (simp_all add: isThroughputMetric_def)

lemma resolveCounter_portDirection:
  "portDirection (resolveCounter w a) =
     (if isThroughputMetric (metricSet (resolveCounter w a))
      then getPortDirection (metricSet (resolveCounter w a)) (aie_payload a) else [])"
  by (simp add: resolveCounter_def Let_def)

text \<open>
  C5. For the counter that \<open>getConfiguredCounters\<close> builds from a raw counter: if
  its metric set is exactly \<open>"read_bandwidth"\<close>, its direction is \<open>"output"\<close> when
  bit 8 of the payload is set and \<open>"input"\<close> when it is clear; if its metric set is
  \<open>"mm2s_throughput"\<close>, its direction is \<open>"output"\<close> whatever the payload; if its
  metric set contains neither \<open>"throughput"\<close> nor \<open>"bandwidth"\<close>, its direction
  is empty and its metadata entry ends after the address (and the metric set, when
  there is one), with no \<open>port_direction\<close> field.
\<close>

theorem port_direction_resolution:
  \<open>(metricSet (resolveCounter w a) = ''read_bandwidth'' \<longrightarrow>
      portDirection (resolveCounter w a) = (if bit (aie_payload a) 8 then ''output'' else ''input''))
   \<and> (metricSet (resolveCounter w a) = ''mm2s_throughput'' \<longrightarrow>
      portDirection (resolveCounter w a) = ''output'')
   \<and> (\<not> str_contains (metricSet (resolveCounter w a)) ''throughput''
      \<and> \<not> str_contains (metricSet (resolveCounter w a)) ''bandwidth'' \<longrightarrow>
      portDirection (resolveCounter w a) = []
      \<and> counter_metadata_entry (resolveCounter w a) =
          counter_metadata_fields (resolveCounter w a)
          @ (if metricSet (resolveCounter w a) \<noteq> []
             then '', "metric_set": "'' @ metricSet (resolveCounter w a) @ ''"'' else [])
          @ ''}'')\<close>
proof -
  let ?i = "resolveCounter w a"
  have 1: "metricSet ?i = ''read_bandwidth'' \<Longrightarrow>
      portDirection ?i = (if bit (aie_payload a) 8 then ''output'' else ''input'')"
    by (simp only: resolveCounter_portDirection isThroughput_known getPortDirection_read_bandwidth if_True)
  have 2: "metricSet ?i = ''mm2s_throughput'' \<Longrightarrow> portDirection ?i = ''output''"
    by (simp only: resolveCounter_portDirection isThroughput_known getPortDirection_mm2s if_True)
  have 3: "\<not> str_contains (metricSet ?i) ''throughput'' \<and> \<not> str_contains (metricSet ?i) ''bandwidth''
     \<Longrightarrow> portDirection ?i = []"
    by (simp add: resolveCounter_portDirection isThroughputMetric_def)
  have 4: \<open>portDirection ?i = [] \<Longrightarrow> counter_metadata_entry ?i =
          counter_metadata_fields ?i
          @ (if metricSet ?i \<noteq> [] then '', "metric_set": "'' @ metricSet ?i @ ''"'' else [])
          @ ''}''\<close>
    by (simp add: counter_metadata_entry_def)
  show ?thesis using 1 2 3 4 by blast
qed

lemmas eval_resolve = resolveCounter_def Let_def ex_writer_def ex_aie_def isThroughputMetric_def
  getPortDirection_def

theorem port_direction_resolution_witness:
  \<open>metricSet (resolveCounter (ex_writer [] (Some [[((1, 0), ''read_bandwidth'')]]))
      (ex_aie 1 0 0 ''interface_tile'' 0x100)) = ''read_bandwidth''
   \<and> portDirection (resolveCounter (ex_writer [] (Some [[((1, 0), ''read_bandwidth'')]]))
      (ex_aie 1 0 0 ''interface_tile'' 0x100)) = ''output''
   \<and> portDirection (resolveCounter (ex_writer [] (Some [[((1, 0), ''read_bandwidth'')]]))
      (ex_aie 1 0 0 ''interface_tile'' 0x0FF)) = ''input''
   \<and> metricSet (resolveCounter (ex_writer [] (Some [[((1, 0), ''mm2s_throughput'')]]))
      (ex_aie 1 0 0 ''interface_tile'' 0)) = ''mm2s_throughput''
   \<and> portDirection (resolveCounter (ex_writer [] (Some [[((1, 0), ''mm2s_throughput'')]]))
      (ex_aie 1 0 0 ''interface_tile'' 0)) = ''output''
   \<and> \<not> str_contains (metricSet (resolveCounter (ex_writer [] (Some [[((1, 0), ''heat_map'')]]))
      (ex_aie 1 0 0 ''interface_tile'' 0x100))) ''throughput''
   \<and> \<not> str_contains (metricSet (resolveCounter (ex_writer [] (Some [[((1, 0), ''heat_map'')]]))
      (ex_aie 1 0 0 ''interface_tile'' 0x100))) ''bandwidth''
   \<and> portDirection (resolveCounter (ex_writer [] (Some [[((1, 0), ''heat_map'')]]))
      (ex_aie 1 0 0 ''interface_tile'' 0x100)) = []
   \<and> counter_metadata_entry (resolveCounter (ex_writer [] (Some [[((1, 0), ''heat_map'')]]))
      (ex_aie 1 0 0 ''interface_tile'' 0x100)) =
       counter_metadata_fields (resolveCounter (ex_writer [] (Some [[((1, 0), ''heat_map'')]]))
         (ex_aie 1 0 0 ''interface_tile'' 0x100)) @ '', "metric_set": "heat_map"}''\<close>
  using port_direction_resolution [where w = "ex_writer [] (Some [[((1, 0), ''read_bandwidth'')]])"
      and a = "ex_aie 1 0 0 ''interface_tile'' 0x100"]
    port_direction_resolution [where w = "ex_writer [] (Some [[((1, 0), ''read_bandwidth'')]])"
      and a = "ex_aie 1 0 0 ''interface_tile'' 0x0FF"]
    port_direction_resolution [where w = "ex_writer [] (Some [[((1, 0), ''mm2s_throughput'')]])"
      and a = "ex_aie 1 0 0 ''interface_tile'' 0"]
    port_direction_resolution [where w = "ex_writer [] (Some [[((1, 0), ''heat_map'')]])"
      and a = "ex_aie 1 0 0 ''interface_tile'' 0x100"]
  by (simp add: eval_resolve)

section \<open>Properties of the manifest loader\<close>

lemma parse_row_throws_iff:
  "(\<exists>e. fst (parse_row k line) = RowThrew e) = id_out_of_range line"
  by (auto simp add: parse_row_def id_out_of_range_def Let_def split: option.splits sum.splits prod.splits)

lemma token_ok_empty: "\<not> token_ok []"
  by (simp add: token_ok_def)

lemma token_ok_Inl: "stoi t = Inl e \<Longrightarrow> \<not> token_ok t"
  by (simp add: token_ok_def)

lemma token_ok_Inr:
  "t \<noteq> [] \<Longrightarrow> stoi t = Inr v \<Longrightarrow>
     token_ok t \<and> token_timestamp t = \<lparr>lineNumber = word_of_int v, optionalIndex = - 1\<rparr>"
  by (simp add: token_ok_def token_timestamp_def)

lemma parse_line_numbers_timestamps:
  "fst (parse_line_numbers f toks) = map token_timestamp (filter token_ok toks)"
proof (induction toks)
  case Nil
  then show ?case by simp
next
  case (Cons t toks)
  obtain ts lg where r: "parse_line_numbers f toks = (ts, lg)"
    by (cases "parse_line_numbers f toks")
  have ts: "ts = map token_timestamp (filter token_ok toks)" using Cons r by simp
  show ?case
  proof (cases "t = []")
    case True
    then show ?thesis using r ts by (simp add: token_ok_empty)
  next
    case False
    show ?thesis
    proof (cases "stoi t")
      case (Inl e)
      then show ?thesis using False r ts by (simp add: token_ok_Inl)
    next
      case (Inr v)
      then show ?thesis using False r ts token_ok_Inr [OF False Inr] by simp
    qed
  qed
qed

lemma parse_line_numbers_warning:
  "tok \<in> set toks \<Longrightarrow> tok \<noteq> [] \<Longrightarrow> stoi tok = Inl e \<Longrightarrow>
   (warning, ''Error parsing line number '' @ [CHR 0x27] @ tok @ [CHR 0x27] @ '' in '' @ f)
     \<in> set (snd (parse_line_numbers f toks))"
  by (induction toks) (auto split: prod.splits sum.splits)

lemma parse_row_loaded:
  assumes "split_fields line [] False [] = [f0, f1, f2]"
    and "regex_search f1 = Some ds" and "stoi ds = Inr n"
  shows "fst (parse_row k line) =
           RowLoaded \<lparr>filename = f1, asmId = n, ucNumber = int32_wrap (4 * n),
             colStart = int32_wrap (n * 4), colEnd = int32_wrap (int32_wrap (n * 4) + 3),
             timestamps = fst (parse_line_numbers f1 (getline_all (CHR '','') f2 [])),
             counters = []\<rparr>"
    and "set (snd (parse_line_numbers f1 (getline_all (CHR '','') f2 []))) \<subseteq> set (snd (parse_row k line))"
  using assms by (auto simp add: parse_row_def Let_def split: prod.splits)

text \<open>
  The fields computed from an identifier stay within the 32-bit \<open>int\<close>: for
  identifier 1073741824 the record has \<open>ucNumber\<close> 0 and the columns 0 to 3.
\<close>

lemma parse_row_wraps_int:
  "fst (parse_row 2 ex_row_wrapping_id) =
     RowLoaded \<lparr>filename = ''aie_runtime_control1073741824.asm'', asmId = 1073741824,
       ucNumber = 0, colStart = 0, colEnd = 3,
       timestamps = [\<lparr>lineNumber = 6, optionalIndex = - 1\<rparr>,
                     \<lparr>lineNumber = 8, optionalIndex = - 1\<rparr>],
       counters = []\<rparr>"
  by code_simp

lemma int32_wrap_range: "- 2147483648 \<le> int32_wrap x \<and> int32_wrap x \<le> 2147483647"
  by (simp add: int32_wrap_def)

lemma int32_wrap_id: "- 2147483648 \<le> x \<Longrightarrow> x \<le> 2147483647 \<Longrightarrow> int32_wrap x = x"
  by (simp add: int32_wrap_def)

lemma scan_lines_append:
  "\<forall>l \<in> set pre. \<not> id_out_of_range l \<Longrightarrow>
   scan_lines False k (pre @ rest) =
     (fst (scan_lines False k pre) @ fst (scan_lines False (k + int (length pre)) rest),
      snd (scan_lines False k pre) @ snd (scan_lines False (k + int (length pre)) rest))"
proof (induction pre arbitrary: k)
  case Nil
  then show ?case by simp
next
  case (Cons l pre)
  have nt: "\<And>e. fst (parse_row (k + 1) l) \<noteq> RowThrew e"
    using Cons.prems parse_row_throws_iff [of "k + 1" l] by auto
  have ih: "scan_lines False (k + 1) (pre @ rest) =
     (fst (scan_lines False (k + 1) pre) @ fst (scan_lines False (k + 1 + int (length pre)) rest),
      snd (scan_lines False (k + 1) pre) @ snd (scan_lines False (k + 1 + int (length pre)) rest))"
    using Cons.IH [of "k + 1"] Cons.prems by simp
  have eq: "k + 1 + int (length pre) = k + int (length (l # pre))" by simp
  show ?case
  proof (cases "parse_row (k + 1) l")
    case (Pair res lg)
    then show ?thesis using nt ih eq
      by (cases res) (auto simp add: algebra_simps split: prod.splits)
  qed
qed

lemma scan_lines_row:
  assumes "line \<noteq> []" and "fst (parse_row (k + 1) line) = RowLoaded r"
  shows "fst (scan_lines False k (line # post)) = r # fst (scan_lines False (k + 1) post)"
    and "set (snd (parse_row (k + 1) line)) \<subseteq> set (snd (scan_lines False k (line # post)))"
  using assms by (auto split: prod.splits row_result.splits)

lemma line_nonempty: "split_fields line [] False [] = [f0, f1, f2] \<Longrightarrow> line \<noteq> []"
  by auto

text \<open>
  C4 (as amended). Take a data row that the scan reaches (no earlier row has an
  identifier out of range), with three fields, a matching file name and an identifier
  in range, whose third field holds a non-empty token \<open>tok\<close> on which \<open>std::stoi\<close>
  throws. Only the token is skipped: the record of the row is in the loader's output,
  its timestamps being those of the usable tokens of the field, in order; a warning
  naming the token is logged; and the records of the rows before and of the rows
  after are in the output as well.
\<close>

theorem unparsable_line_number_skips_token_only:
  assumes lines: "getline_all (CHR 0x0A) content [] = header # pre @ line # post"
    and pre: "\<forall>l \<in> set pre. \<not> id_out_of_range l"
    and flds: "split_fields line [] False [] = [f0, f1, f2]"
    and rx: "regex_search f1 = Some ds" and idn: "stoi ds = Inr n"
    and tok: "tok \<in> set (getline_all (CHR '','') f2 [])" "tok \<noteq> []" "stoi tok = Inl e"
  shows "\<lparr>filename = f1, asmId = n, ucNumber = int32_wrap (4 * n),
           colStart = int32_wrap (n * 4), colEnd = int32_wrap (int32_wrap (n * 4) + 3),
           timestamps = map token_timestamp (filter token_ok (getline_all (CHR '','') f2 [])),
           counters = []\<rparr> \<in> set (fst (readASMInfoFromCSV path (Some content)))
       \<and> \<not> token_ok tok
       \<and> (warning, ''Error parsing line number '' @ [CHR 0x27] @ tok @ [CHR 0x27] @ '' in '' @ f1)
            \<in> set (snd (readASMInfoFromCSV path (Some content)))
       \<and> set (fst (scan_lines False 1 pre)) \<subseteq> set (fst (readASMInfoFromCSV path (Some content)))
       \<and> set (fst (scan_lines False (2 + int (length pre)) post))
            \<subseteq> set (fst (readASMInfoFromCSV path (Some content)))"
proof -
  let ?r = "\<lparr>filename = f1, asmId = n, ucNumber = int32_wrap (4 * n),
           colStart = int32_wrap (n * 4), colEnd = int32_wrap (int32_wrap (n * 4) + 3),
           timestamps = map token_timestamp (filter token_ok (getline_all (CHR '','') f2 [])),
           counters = []\<rparr>"
  let ?k = "1 + int (length pre)"
  have ne: "line \<noteq> []" using flds by (rule line_nonempty)
  have row: "fst (parse_row (?k + 1) line) = RowLoaded ?r"
    using parse_row_loaded(1) [OF flds rx idn] by (simp add: parse_line_numbers_timestamps)
  have rowlog: "set (snd (parse_line_numbers f1 (getline_all (CHR '','') f2 [])))
      \<subseteq> set (snd (parse_row (?k + 1) line))"
    by (rule parse_row_loaded(2) [OF flds rx idn])
  have hd: "scan_lines True 0 (header # pre @ line # post) = scan_lines False 1 (pre @ line # post)"
    by simp
  have app: "scan_lines False 1 (pre @ line # post) =
     (fst (scan_lines False 1 pre) @ fst (scan_lines False ?k (line # post)),
      snd (scan_lines False 1 pre) @ snd (scan_lines False ?k (line # post)))"
    by (rule scan_lines_append [OF pre])
  have recs: "fst (scan_lines False ?k (line # post)) = ?r # fst (scan_lines False (?k + 1) post)"
    by (rule scan_lines_row(1) [OF ne row])
  have lg: "set (snd (parse_row (?k + 1) line)) \<subseteq> set (snd (scan_lines False ?k (line # post)))"
    by (rule scan_lines_row(2) [OF ne row])
  have w: "(warning, ''Error parsing line number '' @ [CHR 0x27] @ tok @ [CHR 0x27] @ '' in '' @ f1)
     \<in> set (snd (scan_lines False ?k (line # post)))"
    using parse_line_numbers_warning [OF tok, of f1] rowlog lg by blast
  have k2: "?k + 1 = 2 + int (length pre)" by simp
  have out: "set (fst (readASMInfoFromCSV path (Some content))) =
      set (fst (scan_lines False 1 pre)) \<union> insert ?r (set (fst (scan_lines False (2 + int (length pre)) post)))"
    using recs unfolding k2
    by (simp add: readASMInfoFromCSV_def lines hd app Let_def split: prod.splits)
  have outlog: "set (snd (scan_lines False ?k (line # post)))
      \<subseteq> set (snd (readASMInfoFromCSV path (Some content)))"
    by (auto simp add: readASMInfoFromCSV_def lines hd app Let_def split: prod.splits)
  have nok: "\<not> token_ok tok" using tok(3) by (rule token_ok_Inl)
  show ?thesis using out outlog w nok by auto
qed

text \<open>
  C4 as stated fails: in \<open>ex_manifest_bad_token\<close> the second data row holds the
  token \<open>x\<close>, and its record is in the output, with the three other line numbers.
\<close>

theorem bad_token_row_is_kept:
  "fst (readASMInfoFromCSV ''aie_profile_timestamps.csv'' (Some ex_manifest_bad_token)) =
     [ex_record 0 [9], ex_record 1 [6, 8, 293], ex_record 2 [12]]"
  by code_simp

text \<open>
  C2. In \<open>ex_manifest_big_id\<close> the second data row names control program
  99999999999, which \<open>std::stoi\<close> rejects as out of range. The exception leaves the
  loop: the row after it, a well-formed row for control program 1, is never scanned,
  and only the record of the first row is returned.
\<close>

theorem big_id_aborts_scan:
  "fst (readASMInfoFromCSV ''aie_profile_timestamps.csv'' (Some ex_manifest_big_id)) =
     [ex_record 0 [9]]"
  by code_simp

theorem unparsable_line_number_skips_token_only_witness:
  "ex_record 1 [6, 8, 293]
     \<in> set (fst (readASMInfoFromCSV ''aie_profile_timestamps.csv'' (Some ex_manifest_bad_token)))
   \<and> (warning, ''Error parsing line number '' @ [CHR 0x27] @ ''x'' @ [CHR 0x27]
                 @ '' in aie_runtime_control1.asm'')
       \<in> set (snd (readASMInfoFromCSV ''aie_profile_timestamps.csv'' (Some ex_manifest_bad_token)))
   \<and> ex_record 0 [9]
       \<in> set (fst (readASMInfoFromCSV ''aie_profile_timestamps.csv'' (Some ex_manifest_bad_token)))
   \<and> ex_record 2 [12]
       \<in> set (fst (readASMInfoFromCSV ''aie_profile_timestamps.csv'' (Some ex_manifest_bad_token)))"
proof -
  have lines: "getline_all (CHR 0x0A) ex_manifest_bad_token [] =
      ''filepath,filename,line_numbers'' # [''/work,aie_runtime_control0.asm,9'']
        @ ex_row_bad_token # [''/work,aie_runtime_control2.asm,12'']"
    by code_simp
  have pre: "\<forall>l \<in> set [''/work,aie_runtime_control0.asm,9'']. \<not> id_out_of_range l"
    by code_simp
  have flds: "split_fields ex_row_bad_token [] False []
       = [''/work'', ''aie_runtime_control1.asm'', ''6,8,x,293'']"
    by code_simp
  have rx: "regex_search ''aie_runtime_control1.asm'' = Some ''1''" by code_simp
  have idn: "stoi ''1'' = Inr 1" by code_simp
  have tok: "''x'' \<in> set (getline_all (CHR '','') ''6,8,x,293'' [])" "''x'' \<noteq> []"
    "stoi ''x'' = Inl invalid_argument"
    by code_simp+
  have ts: "map token_timestamp (filter token_ok (getline_all (CHR '','') ''6,8,x,293'' []))
      = map (\<lambda>l. \<lparr>lineNumber = l, optionalIndex = - 1\<rparr>) [6, 8, 293]"
    by code_simp
  have r0: "ex_record 0 [9] \<in> set (fst (scan_lines False 1 [''/work,aie_runtime_control0.asm,9'']))"
    by code_simp
  have r2: "ex_record 2 [12] \<in> set (fst (scan_lines False (2 + int (length [''/work,aie_runtime_control0.asm,9''])) [''/work,aie_runtime_control2.asm,12'']))"
    by code_simp
  have r1: "ex_record 1 [6, 8, 293] = \<lparr>filename = ''aie_runtime_control1.asm'', asmId = 1,
           ucNumber = int32_wrap (4 * 1), colStart = int32_wrap (1 * 4),
           colEnd = int32_wrap (int32_wrap (1 * 4) + 3),
           timestamps = map (\<lambda>l. \<lparr>lineNumber = l, optionalIndex = - 1\<rparr>) [6, 8, 293],
           counters = []\<rparr>"
    by code_simp
  show ?thesis
    using unparsable_line_number_skips_token_only [OF lines pre flds rx idn tok,
        of "''aie_profile_timestamps.csv''"] r0 r2
    unfolding ts r1 [symmetric]
    by auto
qed

section \<open>Properties of the script emitter\<close>

lemma pair_less_trans: "pair_less a b \<Longrightarrow> pair_less b c \<Longrightarrow> pair_less a c"
  by (auto simp add: pair_less_def)

lemma pair_less_total: "\<not> pair_less a b \<Longrightarrow> \<not> pair_less b a \<Longrightarrow> a = b"
  by (cases a, cases b) (auto simp add: pair_less_def)

lemma pair_less_irrefl: "\<not> pair_less a a"
  by (simp add: pair_less_def)

lemma keys_map_push_back:
  "set (map fst (map_push_back key i m)) = insert key (set (map fst m))"
proof (induction m)
  case Nil
  then show ?case by simp
next
  case (Cons e m)
  obtain k v where e: "e = (k, v)" by (cases e)
  show ?case using Cons e pair_less_total [of key k] by auto
qed

lemma sorted_map_push_back:
  "sorted_wrt pair_less (map fst m) \<Longrightarrow> sorted_wrt pair_less (map fst (map_push_back key i m))"
proof (induction m)
  case Nil
  then show ?case by simp
next
  case (Cons e m)
  obtain k v where e: "e = (k, v)" by (cases e)
  have tl: "sorted_wrt pair_less (map fst m)" using Cons.prems by simp
  have hd: "\<forall>x \<in> set (map fst m). pair_less k x" using Cons.prems e by simp
  show ?case
  proof (cases "pair_less key k")
    case True
    have "\<forall>x \<in> set (map fst m). pair_less key x" using hd True pair_less_trans by blast
    then show ?thesis using True e Cons.prems by simp
  next
    case False
    show ?thesis
    proof (cases "pair_less k key")
      case True
      have "\<forall>x \<in> set (map fst (map_push_back key i m)). pair_less k x"
        using hd True by (simp only: keys_map_push_back) simp
      then show ?thesis using True False e Cons.IH [OF tl] by simp
    next
      case nlt: False
      then show ?thesis using False e Cons.prems by simp
    qed
  qed
qed

lemma group_by_tile_inv:
  "sorted_wrt pair_less (map fst m) \<Longrightarrow>
   sorted_wrt pair_less (map fst (group_by_tile cs i m))
   \<and> set (map fst (group_by_tile cs i m)) = set (map fst m) \<union> (\<lambda>c. (column c, row c)) ` set cs"
proof (induction cs arbitrary: i m)
  case Nil
  then show ?case by simp
next
  case (Cons c cs)
  have s: "sorted_wrt pair_less (map fst (map_push_back (column c, row c) i m))"
    using Cons.prems by (rule sorted_map_push_back)
  show ?case using Cons.IH [OF s, of "i + 1"]
    by (simp only: group_by_tile.simps keys_map_push_back) auto
qed

text \<open>
  C3 (as amended). The tile groupings of a block are the entries of
  \<open>group_by_tile\<close> on the record's filtered counters, written in that order by
  \<open>write_tiles\<close>. They are in strictly ascending order of (column, row), column
  first, whatever the order of the counters in the list, and there is one grouping for
  each tile that has a counter in the list.
\<close>

theorem tile_groupings_sorted:
  "sorted_wrt pair_less (map fst (group_by_tile cs 0 []))
   \<and> set (map fst (group_by_tile cs 0 [])) = (\<lambda>c. (column c, row c)) ` set cs"
  using group_by_tile_inv [of "[]" cs 0] by simp

theorem tile_groupings_sorted_witness:
  "sorted_wrt pair_less (map fst (group_by_tile [ex_counter 1 2 0, ex_counter 0 2 1, ex_counter 1 2 1] 0 []))
   \<and> map fst (group_by_tile [ex_counter 1 2 0, ex_counter 0 2 1, ex_counter 1 2 1] 0 []) = [(0, 2), (1, 2)]"
  using tile_groupings_sorted [of "[ex_counter 1 2 0, ex_counter 0 2 1, ex_counter 1 2 1]"]
  by (simp add: ex_counter_def pair_less_def)

text \<open>
  C3 as stated fails: the first counter of the list is on tile (1, 2) and the second on
  tile (0, 2), and the grouping of tile (0, 2) is written first.
\<close>

theorem tile_groupings_not_in_encounter_order:
  \<open>group_by_tile [ex_counter 1 2 0, ex_counter 0 2 1, ex_counter 1 2 1] 0 []
     = [((0, 2), [1]), ((1, 2), [0, 2])]
   \<and> write_tiles (group_by_tile [ex_counter 1 2 0, ex_counter 0 2 1, ex_counter 1 2 1] 0 [])
     = text_lines [''        {"col": 0, "row": 2, "counters": [ctr_1]},'',
                   ''        {"col": 1, "row": 2, "counters": [ctr_0, ctr_2]}'']\<close>
  by code_simp

section \<open>Properties of \<open>generate\<close>\<close>

lemma readASMInfoFromCSV_absent: "fst (readASMInfoFromCSV p None) = []"
  by (simp add: readASMInfoFromCSV_def)

lemma generate_no_records:
  "fst (readASMInfoFromCSV (csvPath w) (csv_file fs)) = [] \<Longrightarrow>
     fst (generate w fs) = False \<and> fst (snd (generate w fs)) = fs"
proof -
  assume e: "fst (readASMInfoFromCSV (csvPath w) (csv_file fs)) = []"
  obtain af lg1 where r: "readASMInfoFromCSV (csvPath w) (csv_file fs) = (af, lg1)"
    by (cases "readASMInfoFromCSV (csvPath w) (csv_file fs)")
  have "af = []" using e r by simp
  then show ?thesis using r by (simp add: generate_def)
qed

text \<open>
  C7. When the manifest cannot be opened the loader returns no record; and whenever the
  loader returns no record, \<open>generate\<close> returns \<open>false\<close> and leaves the files as
  they were: the CT file is neither created nor changed.
\<close>

theorem generate_empty_manifest:
  "(csv_file fs = None \<longrightarrow> fst (readASMInfoFromCSV (csvPath w) (csv_file fs)) = [])
   \<and> (fst (readASMInfoFromCSV (csvPath w) (csv_file fs)) = [] \<longrightarrow>
        fst (generate w fs) = False \<and> fst (snd (generate w fs)) = fs
        \<and> ct_file (fst (snd (generate w fs))) = ct_file fs)"
  using generate_no_records [of w fs] by (auto simp add: readASMInfoFromCSV_absent)

theorem generate_empty_manifest_witness:
  "csv_file (ex_fs None (Some ''old'') True) = None
   \<and> fst (readASMInfoFromCSV (csvPath (ex_writer [Some (ex_aie 1 2 0 ''aie'' 0)] None))
        (csv_file (ex_fs None (Some ''old'') True))) = []
   \<and> fst (generate (ex_writer [Some (ex_aie 1 2 0 ''aie'' 0)] None) (ex_fs None (Some ''old'') True)) = False
   \<and> ct_file (fst (snd (generate (ex_writer [Some (ex_aie 1 2 0 ''aie'' 0)] None)
        (ex_fs None (Some ''old'') True)))) = Some ''old''"
  using generate_empty_manifest [of "ex_fs None (Some ''old'') True"
      "ex_writer [Some (ex_aie 1 2 0 ''aie'' 0)] None"]
  by (simp add: ex_fs_def)

lemma generate_idem: "generate w (fst (snd (generate w fs))) = generate w fs"
  by (auto simp add: generate_def writeCTFile_def split: prod.splits if_splits)

lemma getConfiguredCounters_loop_eq:
  "getConfiguredCounters_loop w xs acc = acc @ map (resolveCounter w) (non_null xs)"
  by (induction xs arbitrary: acc rule: non_null.induct) simp_all

lemma getConfiguredCounters_eq:
  "fst (getConfiguredCounters w) = map (resolveCounter w) (non_null (aieCounters w))"
  by (simp add: getConfiguredCounters_def Let_def getConfiguredCounters_loop_eq)

lemma assign_counters_eq:
  "assign_counters cs fl h =
     (h \<or> (\<exists>a \<in> set fl. timestamps a \<noteq> []),
      map (\<lambda>a. a\<lparr>counters := filterCountersByColumn cs (colStart a) (colEnd a)\<rparr>) fl)"
  by (induction fl arbitrary: h) auto

lemma filter_none_in_range:
  "\<forall>c \<in> set cs. \<not> (s \<le> uint (column c) \<and> uint (column c) \<le> e) \<Longrightarrow>
     filterCountersByColumn cs s e = []"
  by (simp add: filterCountersByColumn_eq filter_empty_conv)

lemma write_jprobe_blocks_no_counters:
  "\<forall>a \<in> set fl. counters a = [] \<Longrightarrow> write_jprobe_blocks fl = []"
  by (induction fl) simp_all

text \<open>
  C10 (as amended). If a loaded record has a timestamp, a counter is configured, no
  configured counter's column lies in the column range of any record, and the output
  file opens for writing, then \<open>generate\<close> returns \<open>true\<close> and the CT file holds
  the preamble, the metadata entries of the configured counters (one for each counter
  of the store that is not null), the end of the metadata and the epilogue, with no
  block between them.
\<close>

theorem generate_no_counter_in_range:
  assumes ts: "\<exists>a \<in> set (fst (readASMInfoFromCSV (csvPath w) (csv_file fs))). timestamps a \<noteq> []"
    and cs: "fst (getConfiguredCounters w) \<noteq> []"
    and out: "\<forall>a \<in> set (fst (readASMInfoFromCSV (csvPath w) (csv_file fs))).
               \<forall>c \<in> set (fst (getConfiguredCounters w)).
                 \<not> (colStart a \<le> uint (column c) \<and> uint (column c) \<le> colEnd a)"
    and op: "ct_openable fs"
  shows "fst (generate w fs) = True
       \<and> fst (snd (generate w fs)) =
           fs\<lparr>ct_file := Some (ct_preamble @ write_counter_metadata (fst (getConfiguredCounters w))
                                @ ct_metadata_close @ ct_epilogue)\<rparr>
       \<and> fst (getConfiguredCounters w) = map (resolveCounter w) (non_null (aieCounters w))"
proof -
  obtain af lg1 where r: "readASMInfoFromCSV (csvPath w) (csv_file fs) = (af, lg1)"
    by (cases "readASMInfoFromCSV (csvPath w) (csv_file fs)")
  obtain ac lg2 where g: "getConfiguredCounters w = (ac, lg2)"
    by (cases "getConfiguredCounters w")
  have af: "af \<noteq> []" using ts r by auto
  have ac: "ac \<noteq> []" using cs g by simp
  have has: "\<exists>a \<in> set af. timestamps a \<noteq> []" using ts r by simp
  let ?fl = "map (\<lambda>a. a\<lparr>counters := filterCountersByColumn ac (colStart a) (colEnd a)\<rparr>) af"
  have asg: "assign_counters ac af False = (True, ?fl)"
    using has by (simp add: assign_counters_eq)
  have "\<forall>a \<in> set af. filterCountersByColumn ac (colStart a) (colEnd a) = []"
    using out r g by (auto intro!: filter_none_in_range)
  then have "\<forall>a \<in> set ?fl. counters a = []" by simp
  then have nb: "write_jprobe_blocks ?fl = []" by (rule write_jprobe_blocks_no_counters)
  have ctt: "ct_text ?fl ac = ct_preamble @ write_counter_metadata ac @ ct_metadata_close @ ct_epilogue"
    by (simp only: ct_text_def nb append_Nil)
  have gen: "generate w fs = (True, fs\<lparr>ct_file := Some (ct_text ?fl ac)\<rparr>,
      lg1 @ lg2 @ [(info, ''Generated CT file: '' @ outputPath w)])"
    using af ac op by (simp add: generate_def r g asg writeCTFile_def)
  show ?thesis using gen ctt g getConfiguredCounters_eq [of w] by simp
qed

theorem generate_no_counter_in_range_witness:
  \<open>fst (generate ex_writer_col5 (ex_fs (Some ex_manifest_one) None True)) = True
   \<and> ct_file (fst (snd (generate ex_writer_col5 (ex_fs (Some ex_manifest_one) None True))))
       = Some (ct_preamble
          @ text_lines [''        {"column": 5, "row": 2, "counter": 0, "module": "aie", "address": "0x000a237520"}'']
          @ ct_metadata_close @ ct_epilogue)\<close>
proof -
  let ?fs = "ex_fs (Some ex_manifest_one) None True"
  have ts: "\<exists>a \<in> set (fst (readASMInfoFromCSV (csvPath ex_writer_col5) (csv_file ?fs))). timestamps a \<noteq> []"
    by code_simp
  have cs: "fst (getConfiguredCounters ex_writer_col5) \<noteq> []"
    by code_simp
  have out: "\<forall>a \<in> set (fst (readASMInfoFromCSV (csvPath ex_writer_col5) (csv_file ?fs))).
               \<forall>c \<in> set (fst (getConfiguredCounters ex_writer_col5)).
                 \<not> (colStart a \<le> uint (column c) \<and> uint (column c) \<le> colEnd a)"
    by code_simp
  have op: "ct_openable ?fs" by (simp add: ex_fs_def)
  have md: \<open>write_counter_metadata (fst (getConfiguredCounters ex_writer_col5))
     = text_lines [''        {"column": 5, "row": 2, "counter": 0, "module": "aie", "address": "0x000a237520"}'']\<close>
    by code_simp
  show ?thesis
    using generate_no_counter_in_range [OF ts cs out op] unfolding md
    by simp
qed

text \<open>
  C10 as stated fails when the output file does not open: with a record that has
  timestamps and a configured counter in column 5, outside the record's columns 0 to
  3, \<open>generate\<close> returns \<open>false\<close> and writes nothing.
\<close>

theorem generate_fails_when_output_unwritable:
  "fst (readASMInfoFromCSV (csvPath ex_writer_col5) (Some ex_manifest_one)) = [ex_record 0 [6, 8, 293]]
   \<and> map column (fst (getConfiguredCounters ex_writer_col5)) = [5]
   \<and> fst (generate ex_writer_col5 (ex_fs (Some ex_manifest_one) None False)) = False
   \<and> fst (snd (generate ex_writer_col5 (ex_fs (Some ex_manifest_one) None False)))
        = ex_fs (Some ex_manifest_one) None False"
  by code_simp

section \<open>Determinism of \<open>generate\<close>\<close>

lemma readASMInfoFromCSV_path:
  "fst (readASMInfoFromCSV p f) = fst (readASMInfoFromCSV q f)"
  by (simp add: readASMInfoFromCSV_def Let_def split: option.splits prod.splits)

lemma resolveCounter_same_configuration:
  "same_configuration w1 w2 \<Longrightarrow> resolveCounter w1 a = resolveCounter w2 a"
  by (simp add: same_configuration_def resolveCounter_def calculateCounterAddress_def)

lemma getConfiguredCounters_same_configuration:
  "same_configuration w1 w2 \<Longrightarrow> fst (getConfiguredCounters w1) = fst (getConfiguredCounters w2)"
  using resolveCounter_same_configuration [of w1 w2]
  by (simp add: getConfiguredCounters_eq same_configuration_def)

lemma generate_result:
  "fst (generate w fs) =
     (fst (readASMInfoFromCSV (csvPath w) (csv_file fs)) \<noteq> []
      \<and> fst (getConfiguredCounters w) \<noteq> []
      \<and> (\<exists>a \<in> set (fst (readASMInfoFromCSV (csvPath w) (csv_file fs))). timestamps a \<noteq> [])
      \<and> ct_openable fs)"
proof -
  obtain af lg1 where r: "readASMInfoFromCSV (csvPath w) (csv_file fs) = (af, lg1)"
    by (cases "readASMInfoFromCSV (csvPath w) (csv_file fs)")
  obtain ac lg2 where g: "getConfiguredCounters w = (ac, lg2)"
    by (cases "getConfiguredCounters w")
  show ?thesis
    by (simp add: generate_def r g assign_counters_eq writeCTFile_def)
qed

lemma generate_files:
  "fst (snd (generate w fs)) =
     (if fst (generate w fs)
      then fs\<lparr>ct_file := Some (ct_text
             (snd (assign_counters (fst (getConfiguredCounters w))
                     (fst (readASMInfoFromCSV (csvPath w) (csv_file fs))) False))
             (fst (getConfiguredCounters w)))\<rparr>
      else fs)"
proof -
  obtain af lg1 where r: "readASMInfoFromCSV (csvPath w) (csv_file fs) = (af, lg1)"
    by (cases "readASMInfoFromCSV (csvPath w) (csv_file fs)")
  obtain ac lg2 where g: "getConfiguredCounters w = (ac, lg2)"
    by (cases "getConfiguredCounters w")
  show ?thesis
    by (simp add: generate_def r g assign_counters_eq writeCTFile_def)
qed

text \<open>
  C8 (as amended). Take two runs of \<open>generate\<close> with the same counter configuration
  (shifts, counters and metric-set mapping), the same manifest, and an output file that
  opens in both or in neither; the paths and the CT file already present may differ.
  They return the same boolean, and when it is \<open>true\<close> they leave the same CT file.
  The boolean is \<open>true\<close> exactly when a loaded record has a timestamp, a counter is
  configured and the output opens; the CT file is then the script of the loaded records,
  each with its filtered counters, and of the configured counters. A run that returns
  \<open>false\<close> leaves the files as they were, and a second run right after a first
  returns the same result and leaves the files as the first run left them.
\<close>

theorem generate_deterministic:
  assumes cfg: "same_configuration w1 w2"
    and csv: "csv_file fs1 = csv_file fs2"
    and opn: "ct_openable fs1 = ct_openable fs2"
  shows "fst (generate w1 fs1) = fst (generate w2 fs2)
       \<and> (fst (generate w1 fs1) \<longrightarrow>
            ct_file (fst (snd (generate w1 fs1))) = ct_file (fst (snd (generate w2 fs2))))
       \<and> fst (generate w1 fs1) =
            ((\<exists>a \<in> set (fst (readASMInfoFromCSV (csvPath w1) (csv_file fs1))). timestamps a \<noteq> [])
             \<and> fst (getConfiguredCounters w1) \<noteq> [] \<and> ct_openable fs1)
       \<and> (fst (generate w1 fs1) \<longrightarrow>
            ct_file (fst (snd (generate w1 fs1))) =
              Some (ct_text
                (snd (assign_counters (fst (getConfiguredCounters w1))
                        (fst (readASMInfoFromCSV (csvPath w1) (csv_file fs1))) False))
                (fst (getConfiguredCounters w1))))
       \<and> (\<not> fst (generate w1 fs1) \<longrightarrow> fst (snd (generate w1 fs1)) = fs1)
       \<and> generate w1 (fst (snd (generate w1 fs1))) = generate w1 fs1"
proof -
  have recs: "fst (readASMInfoFromCSV (csvPath w1) (csv_file fs1))
      = fst (readASMInfoFromCSV (csvPath w2) (csv_file fs2))"
    using csv readASMInfoFromCSV_path [of "csvPath w1" "csv_file fs2" "csvPath w2"] by simp
  have cs: "fst (getConfiguredCounters w1) = fst (getConfiguredCounters w2)"
    using cfg by (rule getConfiguredCounters_same_configuration)
  have b: "fst (generate w1 fs1) = fst (generate w2 fs2)"
    by (simp only: generate_result recs cs opn)
  have f: "fst (generate w1 fs1) \<Longrightarrow>
      ct_file (fst (snd (generate w1 fs1))) = ct_file (fst (snd (generate w2 fs2)))"
  proof -
    assume ok: "fst (generate w1 fs1)"
    then have ok2: "fst (generate w2 fs2)" using b by simp
    show ?thesis
      using ok ok2 by (simp add: generate_files [of w1 fs1] generate_files [of w2 fs2] recs cs)
  qed
  have c: "fst (generate w1 fs1) =
            ((\<exists>a \<in> set (fst (readASMInfoFromCSV (csvPath w1) (csv_file fs1))). timestamps a \<noteq> [])
             \<and> fst (getConfiguredCounters w1) \<noteq> [] \<and> ct_openable fs1)"
    by (auto simp add: generate_result)
  have d: "fst (generate w1 fs1) \<Longrightarrow>
            ct_file (fst (snd (generate w1 fs1))) =
              Some (ct_text
                (snd (assign_counters (fst (getConfiguredCounters w1))
                        (fst (readASMInfoFromCSV (csvPath w1) (csv_file fs1))) False))
                (fst (getConfiguredCounters w1)))"
    by (simp add: generate_files [of w1 fs1])
  have e: "\<not> fst (generate w1 fs1) \<Longrightarrow> fst (snd (generate w1 fs1)) = fs1"
    by (simp add: generate_files [of w1 fs1])
  show ?thesis using b f c d e generate_idem [of w1 fs1] by blast
qed

theorem generate_deterministic_witness:
  "same_configuration ex_writer_in_range ex_writer_other_paths
   \<and> csvPath ex_writer_in_range \<noteq> csvPath ex_writer_other_paths
   \<and> csv_file (ex_fs (Some ex_manifest_one) None True)
       = csv_file (ex_fs (Some ex_manifest_one) (Some ''old'') True)
   \<and> ct_openable (ex_fs (Some ex_manifest_one) None True)
       = ct_openable (ex_fs (Some ex_manifest_one) (Some ''old'') True)
   \<and> fst (generate ex_writer_in_range (ex_fs (Some ex_manifest_one) None True))
   \<and> fst (generate ex_writer_other_paths (ex_fs (Some ex_manifest_one) (Some ''old'') True))
   \<and> ct_file (fst (snd (generate ex_writer_in_range (ex_fs (Some ex_manifest_one) None True))))
       = ct_file (fst (snd (generate ex_writer_other_paths
                              (ex_fs (Some ex_manifest_one) (Some ''old'') True))))"
proof -
  have cfg: "same_configuration ex_writer_in_range ex_writer_other_paths"
    by (simp add: same_configuration_def ex_writer_other_paths_def)
  have csv: "csv_file (ex_fs (Some ex_manifest_one) None True)
       = csv_file (ex_fs (Some ex_manifest_one) (Some ''old'') True)"
    by (simp add: ex_fs_def)
  have opn: "ct_openable (ex_fs (Some ex_manifest_one) None True)
       = ct_openable (ex_fs (Some ex_manifest_one) (Some ''old'') True)"
    by (simp add: ex_fs_def)
  have g: "fst (generate ex_writer_in_range (ex_fs (Some ex_manifest_one) None True))"
    by code_simp
  have p: "csvPath ex_writer_in_range \<noteq> csvPath ex_writer_other_paths"
    by (simp add: ex_writer_other_paths_def ex_writer_in_range_def ex_writer_def)
  show ?thesis
    using generate_deterministic [OF cfg csv opn] g cfg csv opn p by simp
qed

text \<open>
  C8 as stated fails: with the same manifest and the same counter configuration,
  \<open>generate\<close> returns \<open>true\<close> when the output file opens and \<open>false\<close> when it
  does not.
\<close>

theorem generate_result_depends_on_output_opening:
  "fst (generate ex_writer_in_range (ex_fs (Some ex_manifest_one) None True)) = True
   \<and> fst (generate ex_writer_in_range (ex_fs (Some ex_manifest_one) None False)) = False"
  by code_simp

end
